theory Spec2Isabelle
  imports Complex_Main "HOL-Library.AList"
begin

section \<open>Decoded documents\<close>

text \<open>
  The validator of \<^verbatim>\<open>nvmbuilder_schema.py\<close> receives the tree that a format decoder
  produced: null, booleans, integers, floats, strings, sequences (Python lists) and
  mappings with string keys (Python dicts, which keep insertion order). A mapping is an
  association list; a Python dict has no repeated key, which the theorems that depend on
  it assume as \<open>distinct (map fst kvs)\<close>.

  A Python float is a finite binary fraction, an infinity or NaN; the finite ones are
  embedded in the rationals. Values that only some decoders produce (dates, byte strings)
  are left out.
\<close>

datatype pyfloat = Finite rat | PosInf | NegInf | NaN

datatype doc =
    DNull
  | DBool bool
  | DInt int
  | DFloat pyfloat
  | DStr string
  | DSeq "doc list"
  | DMap "(string \<times> doc) list"

subsection \<open>Dict operations used by the source\<close>

definition dict_contains :: "string \<Rightarrow> (string \<times> 'a) list \<Rightarrow> bool" where
  "dict_contains k kvs = (k \<in> set (map fst kvs))"

definition dict_get :: "(string \<times> 'a) list \<Rightarrow> string \<Rightarrow> 'a option" where
  "dict_get kvs k = map_of kvs k"

text \<open>\<^verbatim>\<open>v.pop(k)\<close> removes the key; \<^verbatim>\<open>v[k] = x\<close> overwrites in place or appends.\<close>

definition dict_pop :: "string \<Rightarrow> (string \<times> 'a) list \<Rightarrow> (string \<times> 'a) list" where
  "dict_pop k kvs = filter (\<lambda>kv. fst kv \<noteq> k) kvs"

definition dict_set :: "string \<Rightarrow> 'a \<Rightarrow> (string \<times> 'a) list \<Rightarrow> (string \<times> 'a) list" where
  "dict_set k x kvs = AList.update k x kvs"

section \<open>Validation errors\<close>

text \<open>
  A failed validation carries a list of errors, each with the path to the offending value
  and a kind. \<open>value_error\<close> is a \<^verbatim>\<open>ValueError\<close> raised by one of the source's own
  \<^verbatim>\<open>model_validator(mode="before")\<close> functions, with its message; the other kinds are
  those the validation library reports.
\<close>

datatype loc_item = Key string | Index nat | Arm string

datatype err_kind =
    value_error string
  | missing
  | extra_forbidden
  | model_type
  | dict_type
  | list_type
  | tuple_type
  | int_type
  | int_parsing
  | int_from_float
  | finite_number
  | bool_type
  | bool_parsing
  | float_type
  | string_type
  | enum_error

datatype error = Error (loc: "loc_item list") (kind: err_kind)

type_synonym 'a result = "error list + 'a"

definition fail :: "err_kind \<Rightarrow> 'a result" where
  "fail k = Inl [Error [] k]"

definition prefix_loc :: "loc_item \<Rightarrow> error \<Rightarrow> error" where
  "prefix_loc i e = Error (i # loc e) (kind e)"

definition at_loc :: "loc_item \<Rightarrow> 'a result \<Rightarrow> 'a result" where
  "at_loc i r = (case r of Inl es \<Rightarrow> Inl (map (prefix_loc i) es) | Inr x \<Rightarrow> Inr x)"

definition errs_of :: "'a result \<Rightarrow> error list" where
  "errs_of r = (case r of Inl es \<Rightarrow> es | Inr _ \<Rightarrow> [])"

section \<open>Scalar validators of the validation library (lax mode)\<close>

text \<open>
  The source declares its models with pydantic (version 2): its fields are \<^verbatim>\<open>int\<close>,
  \<^verbatim>\<open>bool\<close>, \<^verbatim>\<open>str\<close> and string-valued enums, and it leaves the library in its
  default, lax mode. In that mode an \<^verbatim>\<open>int\<close> field
  accepts an integer, a boolean (as 0 or 1), a float without fractional part and a string
  that parses as an integer; a \<^verbatim>\<open>bool\<close> field accepts a boolean, the integers and
  floats 0 and 1 and a string that parses as a boolean; a \<^verbatim>\<open>str\<close> field accepts
  strings only. How the library parses a string into an integer or a boolean is not part
  of the repository: both parsers are parameters of the model.
\<close>

record lax =
  str_as_int :: "string \<Rightarrow> int option"
  str_as_bool :: "string \<Rightarrow> bool option"

definition float_as_int :: "pyfloat \<Rightarrow> int result" where
  "float_as_int f =
     (case f of
        Finite r \<Rightarrow> (if of_int \<lfloor>r\<rfloor> = r then Inr \<lfloor>r\<rfloor> else fail int_from_float)
      | _ \<Rightarrow> fail finite_number)"

fun validate_int :: "lax \<Rightarrow> doc \<Rightarrow> int result" where
  "validate_int L (DInt i) = Inr i"
| "validate_int L (DBool b) = Inr (if b then 1 else 0)"
| "validate_int L (DFloat f) = float_as_int f"
| "validate_int L (DStr s) =
     (case str_as_int L s of Some i \<Rightarrow> Inr i | None \<Rightarrow> fail int_parsing)"
| "validate_int L _ = fail int_type"

fun validate_bool :: "lax \<Rightarrow> doc \<Rightarrow> bool result" where
  "validate_bool L (DBool b) = Inr b"
| "validate_bool L (DInt i) =
     (if i = 0 then Inr False else if i = 1 then Inr True else fail bool_parsing)"
| "validate_bool L (DFloat f) =
     (if f = Finite 0 then Inr False else if f = Finite 1 then Inr True
      else fail bool_parsing)"
| "validate_bool L (DStr s) =
     (case str_as_bool L s of Some b \<Rightarrow> Inr b | None \<Rightarrow> fail bool_parsing)"
| "validate_bool L _ = fail bool_type"

fun validate_str :: "doc \<Rightarrow> string result" where
  "validate_str (DStr s) = Inr s"
| "validate_str _ = fail string_type"

text \<open>A field of a model: looked up by its key, \<open>missing\<close> when required and absent.\<close>

definition required :: "(string \<times> doc) list \<Rightarrow> string \<Rightarrow> (doc \<Rightarrow> 'a result) \<Rightarrow> 'a result" where
  "required kvs k f =
     (case dict_get kvs k of
        None \<Rightarrow> Inl [Error [Key k] missing]
      | Some d \<Rightarrow> at_loc (Key k) (f d))"

definition with_default :: "(string \<times> doc) list \<Rightarrow> string \<Rightarrow> 'a \<Rightarrow> (doc \<Rightarrow> 'a result) \<Rightarrow> 'a result" where
  "with_default kvs k dflt f =
     (case dict_get kvs k of
        None \<Rightarrow> Inr dflt
      | Some d \<Rightarrow> at_loc (Key k) (f d))"

text \<open>\<^verbatim>\<open>Dict[str, T]\<close>: every value is validated, in order, and all errors are reported.\<close>

fun collect :: "(string \<times> 'a result) list \<Rightarrow> (string \<times> 'a) list result" where
  "collect [] = Inr []"
| "collect ((k, r) # rs) =
     (case (at_loc (Key k) r, collect rs) of
        (Inr x, Inr xs) \<Rightarrow> Inr ((k, x) # xs)
      | (r', rs') \<Rightarrow> Inl (errs_of r' @ errs_of rs'))"

section \<open>The schema\<close>

subsection \<open>Settings\<close>

datatype Endianness = little | big

record CrcData =
  polynomial :: int
  start :: int
  xor_out :: int
  ref_in :: bool
  ref_out :: bool

record Settings =
  endianness :: Endianness
  crc :: CrcData

fun validate_Endianness :: "doc \<Rightarrow> Endianness result" where
  "validate_Endianness (DStr s) =
     (if s = ''little'' then Inr little else if s = ''big'' then Inr big
      else fail enum_error)"
| "validate_Endianness _ = fail enum_error"

definition validate_CrcData :: "lax \<Rightarrow> doc \<Rightarrow> CrcData result" where
  "validate_CrcData L d =
     (case d of
        DMap kvs \<Rightarrow>
          (let r1 = required kvs ''polynomial'' (validate_int L);
               r2 = required kvs ''start'' (validate_int L);
               r3 = required kvs ''xor_out'' (validate_int L);
               r4 = required kvs ''ref_in'' (validate_bool L);
               r5 = required kvs ''ref_out'' (validate_bool L)
           in case (r1, r2, r3, r4, r5) of
                (Inr a, Inr b, Inr c, Inr d, Inr e) \<Rightarrow>
                  Inr \<lparr>polynomial = a, start = b, xor_out = c, ref_in = d, ref_out = e\<rparr>
              | _ \<Rightarrow> Inl (errs_of r1 @ errs_of r2 @ errs_of r3 @ errs_of r4 @ errs_of r5))
      | _ \<Rightarrow> fail model_type)"

definition validate_Settings :: "lax \<Rightarrow> doc \<Rightarrow> Settings result" where
  "validate_Settings L d =
     (case d of
        DMap kvs \<Rightarrow>
          (let r1 = required kvs ''endianness'' validate_Endianness;
               r2 = required kvs ''crc'' (validate_CrcData L)
           in case (r1, r2) of
                (Inr a, Inr b) \<Rightarrow> Inr \<lparr>endianness = a, crc = b\<rparr>
              | _ \<Rightarrow> Inl (errs_of r1 @ errs_of r2))
      | _ \<Rightarrow> fail model_type)"

subsection \<open>Header and CrcLocation\<close>

text \<open>
  \<^verbatim>\<open>CrcLocation = Union[str, int]\<close>. The library resolves a union by the arm that
  matches the input most exactly: a string is an exact match of \<^verbatim>\<open>str\<close>, whatever
  \<^verbatim>\<open>int\<close> would make of it; any other input is left to the \<^verbatim>\<open>int\<close> arm in lax mode.
  When no arm accepts, the errors of all arms are reported.
\<close>

datatype CrcLocation = Keyword string | Address int

definition validate_CrcLocation :: "lax \<Rightarrow> doc \<Rightarrow> CrcLocation result" where
  "validate_CrcLocation L d =
     (case d of
        DStr s \<Rightarrow> Inr (Keyword s)
      | _ \<Rightarrow>
          (case validate_int L d of
             Inr i \<Rightarrow> Inr (Address i)
           | Inl es \<Rightarrow>
               Inl (errs_of (at_loc (Arm ''str'') (validate_str d)) @ map (prefix_loc (Arm ''int'')) es)))"

record Header =
  start_address :: int
  hdr_length :: int
  crc_location :: CrcLocation
  padding :: int

definition validate_Header :: "lax \<Rightarrow> doc \<Rightarrow> Header result" where
  "validate_Header L d =
     (case d of
        DMap kvs \<Rightarrow>
          (let r1 = required kvs ''start_address'' (validate_int L);
               r2 = required kvs ''length'' (validate_int L);
               r3 = required kvs ''crc_location'' (validate_CrcLocation L);
               r4 = with_default kvs ''padding'' 255 (validate_int L)
           in case (r1, r2, r3, r4) of
                (Inr a, Inr b, Inr c, Inr p) \<Rightarrow>
                  Inr \<lparr>start_address = a, hdr_length = b, crc_location = c, padding = p\<rparr>
              | _ \<Rightarrow> Inl (errs_of r1 @ errs_of r2 @ errs_of r3 @ errs_of r4))
      | _ \<Rightarrow> fail model_type)"

subsection \<open>Leaf entries\<close>

datatype ScalarType = u8 | u16 | u32 | u64 | i8 | i16 | i32 | i64 | f32 | f64

definition ScalarType_values :: "(string \<times> ScalarType) list" where
  "ScalarType_values =
     [(''u8'', u8), (''u16'', u16), (''u32'', u32), (''u64'', u64),
      (''i8'', i8), (''i16'', i16), (''i32'', i32), (''i64'', i64),
      (''f32'', f32), (''f64'', f64)]"

fun validate_ScalarType :: "doc \<Rightarrow> ScalarType result" where
  "validate_ScalarType (DStr s) =
     (case map_of ScalarType_values s of Some t \<Rightarrow> Inr t | None \<Rightarrow> fail enum_error)"
| "validate_ScalarType _ = fail enum_error"

text \<open>
  \<^verbatim>\<open>SizeSource(RootModel[Union[int, Tuple[int, int]]])\<close> with its before-validator
  \<^verbatim>\<open>_coerce\<close>. The validator turns a list of two \<^verbatim>\<open>int\<close> instances into a tuple
  and returns anything else unchanged; in Python \<^verbatim>\<open>isinstance(True, int)\<close> holds,
  since \<^verbatim>\<open>bool\<close> is a subclass of \<^verbatim>\<open>int\<close>.
\<close>

datatype SizeSource = Single_dim int | Two_dim int int

datatype coerced = Tuple2 doc doc | Unchanged doc

fun isinstance_int :: "doc \<Rightarrow> bool" where
  "isinstance_int (DInt _) = True"
| "isinstance_int (DBool _) = True"
| "isinstance_int _ = False"

definition SizeSource_coerce :: "doc \<Rightarrow> coerced result" where
  "SizeSource_coerce v =
     (case v of
        DSeq xs \<Rightarrow>
          (case xs of
             [a, b] \<Rightarrow>
               (if \<not> isinstance_int a \<or> \<not> isinstance_int b
                then fail (value_error ''size list must contain integers'')
                else Inr (Tuple2 a b))
           | _ \<Rightarrow> fail (value_error ''size must be length-2 list when array''))
      | _ \<Rightarrow> Inr (Unchanged v))"

definition validate_SizeSource :: "lax \<Rightarrow> doc \<Rightarrow> SizeSource result" where
  "validate_SizeSource L d =
     (case SizeSource_coerce d of
        Inl es \<Rightarrow> Inl es
      | Inr (Tuple2 a b) \<Rightarrow>
          (let r1 = at_loc (Index 0) (validate_int L a);
               r2 = at_loc (Index 1) (validate_int L b)
           in case (r1, r2) of
                (Inr x, Inr y) \<Rightarrow> Inr (Two_dim x y)
              | _ \<Rightarrow>
                  Inl (Error [Arm ''int''] int_type
                       # map (prefix_loc (Arm ''tuple[int, int]'')) (errs_of r1 @ errs_of r2)))
      | Inr (Unchanged v) \<Rightarrow>
          (case validate_int L v of
             Inr i \<Rightarrow> Inr (Single_dim i)
           | Inl es \<Rightarrow>
               Inl (map (prefix_loc (Arm ''int'')) es @ [Error [Arm ''tuple[int, int]''] tuple_type])))"

definition validate_optional :: "(doc \<Rightarrow> 'a result) \<Rightarrow> doc \<Rightarrow> 'a option result" where
  "validate_optional f d =
     (case d of
        DNull \<Rightarrow> Inr None
      | _ \<Rightarrow> (case f d of Inl es \<Rightarrow> Inl es | Inr x \<Rightarrow> Inr (Some x)))"

text \<open>
  \<^verbatim>\<open>DataValue = Union[int, float, str]\<close>: an integer, a float and a string each match
  their own arm exactly; a boolean matches no arm exactly and is taken by the first arm
  that accepts it in lax mode, \<^verbatim>\<open>int\<close>.
\<close>

datatype DataValue = VInt int | VFloat pyfloat | VStr string

definition DataValue_errors :: "error list" where
  "DataValue_errors =
     [Error [Arm ''int''] int_type, Error [Arm ''float''] float_type,
      Error [Arm ''str''] string_type]"

fun validate_DataValue :: "doc \<Rightarrow> DataValue result" where
  "validate_DataValue (DInt i) = Inr (VInt i)"
| "validate_DataValue (DFloat f) = Inr (VFloat f)"
| "validate_DataValue (DStr s) = Inr (VStr s)"
| "validate_DataValue (DBool b) = Inr (VInt (if b then 1 else 0))"
| "validate_DataValue _ = Inl DataValue_errors"

text \<open>\<^verbatim>\<open>List[T]\<close>: every element is validated, in order.\<close>

fun collect_list :: "nat \<Rightarrow> 'a result list \<Rightarrow> 'a list result" where
  "collect_list n [] = Inr []"
| "collect_list n (r # rs) =
     (case (at_loc (Index n) r, collect_list (Suc n) rs) of
        (Inr x, Inr xs) \<Rightarrow> Inr (x # xs)
      | (r', rs') \<Rightarrow> Inl (errs_of r' @ errs_of rs'))"

text \<open>
  \<^verbatim>\<open>ValueSource(RootModel[Union[DataValue, _ValueArray]])\<close> with
  \<^verbatim>\<open>_ValueArray(RootModel[List[DataValue]])\<close>: a list goes to the array arm, whose
  element type has no length constraint; everything else to the scalar arms.
\<close>

datatype ValueSource = Single DataValue | Array "DataValue list"

definition validate_ValueArray :: "doc \<Rightarrow> DataValue list result" where
  "validate_ValueArray d =
     (case d of
        DSeq xs \<Rightarrow> collect_list 0 (map validate_DataValue xs)
      | _ \<Rightarrow> fail list_type)"

definition validate_ValueSource :: "doc \<Rightarrow> ValueSource result" where
  "validate_ValueSource d =
     (case d of
        DSeq xs \<Rightarrow>
          (case validate_ValueArray d of
             Inr vs \<Rightarrow> Inr (Array vs)
           | Inl es \<Rightarrow> Inl (DataValue_errors @ map (prefix_loc (Arm ''_ValueArray'')) es))
      | _ \<Rightarrow>
          (case validate_DataValue d of
             Inr v \<Rightarrow> Inr (Single v)
           | Inl es \<Rightarrow>
               Inl (es @ map (prefix_loc (Arm ''_ValueArray'')) (errs_of (validate_ValueArray d)))))"

definition is_single :: "ValueSource \<Rightarrow> bool" where
  "is_single v = (case v of Single _ \<Rightarrow> True | Array _ \<Rightarrow> False)"

definition single :: "ValueSource \<Rightarrow> string + DataValue" where
  "single v =
     (case v of
        Array _ \<Rightarrow> Inl ''ValueSource contains an array, not a single value''
      | Single x \<Rightarrow> Inr x)"

definition array :: "ValueSource \<Rightarrow> DataValue list" where
  "array v = (case v of Array xs \<Rightarrow> xs | Single x \<Rightarrow> [x])"

text \<open>
  \<^verbatim>\<open>EntrySource = Union[_NameSource, _ValueLiteral]\<close>, two models of one field each;
  keys they do not declare are ignored.
\<close>

datatype EntrySource = NameSource string | ValueLiteral ValueSource

definition validate_NameSource :: "doc \<Rightarrow> string result" where
  "validate_NameSource d =
     (case d of
        DMap kvs \<Rightarrow> required kvs ''name'' validate_str
      | _ \<Rightarrow> fail model_type)"

definition validate_ValueLiteral :: "doc \<Rightarrow> ValueSource result" where
  "validate_ValueLiteral d =
     (case d of
        DMap kvs \<Rightarrow> required kvs ''value'' validate_ValueSource
      | _ \<Rightarrow> fail model_type)"

definition validate_EntrySource :: "doc \<Rightarrow> EntrySource result" where
  "validate_EntrySource d =
     (case validate_NameSource d of
        Inr n \<Rightarrow> Inr (NameSource n)
      | Inl es1 \<Rightarrow>
          (case validate_ValueLiteral d of
             Inr v \<Rightarrow> Inr (ValueLiteral v)
           | Inl es2 \<Rightarrow>
               Inl (map (prefix_loc (Arm ''_NameSource'')) es1
                    @ map (prefix_loc (Arm ''_ValueLiteral'')) es2)))"

record LeafEntry =
  scalar_type :: ScalarType
  leaf_size :: "SizeSource option"
  source :: EntrySource

definition msg_both :: string where
  "msg_both = ''LeafEntry accepts either 'name' or 'value', not both''"

definition msg_neither :: string where
  "msg_neither = ''LeafEntry requires either 'name' or 'value'' @ [CHR 0x27]"

text \<open>
  \<^verbatim>\<open>LeafEntry._flatten_source\<close>, run on the raw mapping before the fields are
  validated. \<open>dict_item\<close> is \<^verbatim>\<open>v[k]\<close> for a key that was tested to be present.
\<close>

definition dict_item :: "(string \<times> 'a) list \<Rightarrow> string \<Rightarrow> 'a" where
  "dict_item kvs k = the (dict_get kvs k)"

definition flatten_source :: "(string \<times> doc) list \<Rightarrow> (string \<times> doc) list result" where
  "flatten_source v =
     (let has_name = dict_contains ''name'' v;
          has_value = dict_contains ''value'' v
      in if has_name \<and> has_value then fail (value_error msg_both)
         else if \<not> has_name \<and> \<not> has_value then fail (value_error msg_neither)
         else if has_name
              then Inr (dict_set ''source'' (DMap [(''name'', dict_item v ''name'')])
                         (dict_pop ''name'' v))
              else Inr (dict_set ''source'' (DMap [(''value'', dict_item v ''value'')])
                         (dict_pop ''value'' v)))"

text \<open>\<^verbatim>\<open>extra="forbid"\<close>: every key that is no field of the model is an error.\<close>

definition extra_errors :: "string list \<Rightarrow> (string \<times> doc) list \<Rightarrow> error list" where
  "extra_errors declared kvs =
     map (\<lambda>k. Error [Key k] extra_forbidden) (filter (\<lambda>k. k \<notin> set declared) (map fst kvs))"

definition LeafEntry_fields :: "lax \<Rightarrow> (string \<times> doc) list \<Rightarrow> LeafEntry result" where
  "LeafEntry_fields L v =
     (let r1 = required v ''type'' validate_ScalarType;
          r2 = with_default v ''size'' None (validate_optional (validate_SizeSource L));
          r3 = required v ''source'' validate_EntrySource;
          ex = extra_errors [''type'', ''size'', ''source''] v
      in case (r1, r2, r3, ex) of
           (Inr t, Inr s, Inr src, []) \<Rightarrow> Inr \<lparr>scalar_type = t, leaf_size = s, source = src\<rparr>
         | _ \<Rightarrow> Inl (errs_of r1 @ errs_of r2 @ errs_of r3 @ ex))"

definition validate_LeafEntry :: "lax \<Rightarrow> doc \<Rightarrow> LeafEntry result" where
  "validate_LeafEntry L d =
     (case d of
        DMap v \<Rightarrow>
          (case flatten_source v of
             Inl es \<Rightarrow> Inl es
           | Inr v' \<Rightarrow> LeafEntry_fields L v')
      | _ \<Rightarrow> fail model_type)"

subsection \<open>The entry tree\<close>

text \<open>
  \<^verbatim>\<open>Entry(RootModel[Union[LeafEntry, Dict[str, "Entry"]]])\<close>: the node is offered to
  both arms of the union. It is a leaf when \<^verbatim>\<open>LeafEntry\<close> accepts it, a group when the
  dict arm accepts it, and an error carrying the errors of both arms otherwise.
\<close>

datatype Entry = Leaf LeafEntry | Group "(string \<times> Entry) list"

fun validate_Entry :: "lax \<Rightarrow> doc \<Rightarrow> Entry result" where
  "validate_Entry L (DMap kvs) =
     (case validate_LeafEntry L (DMap kvs) of
        Inr l \<Rightarrow> Inr (Leaf l)
      | Inl es1 \<Rightarrow>
          (case collect (map (\<lambda>(k, v). (k, validate_Entry L v)) kvs) of
             Inr es \<Rightarrow> Inr (Group es)
           | Inl es2 \<Rightarrow>
               Inl (map (prefix_loc (Arm ''LeafEntry'')) es1
                    @ map (prefix_loc (Arm ''dict[str,Entry]'')) es2)))"
| "validate_Entry L d =
     (case validate_LeafEntry L d of
        Inr l \<Rightarrow> Inr (Leaf l)
      | Inl es1 \<Rightarrow>
          Inl (map (prefix_loc (Arm ''LeafEntry'')) es1
               @ [Error [Arm ''dict[str,Entry]''] dict_type]))"

subsection \<open>Blocks and the top-level document\<close>

record Block =
  header :: Header
  data :: Entry

definition validate_Block :: "lax \<Rightarrow> doc \<Rightarrow> Block result" where
  "validate_Block L d =
     (case d of
        DMap kvs \<Rightarrow>
          (let r1 = required kvs ''header'' (validate_Header L);
               r2 = required kvs ''data'' (validate_Entry L)
           in case (r1, r2) of
                (Inr h, Inr e) \<Rightarrow> Inr \<lparr>header = h, data = e\<rparr>
              | _ \<Rightarrow> Inl (errs_of r1 @ errs_of r2))
      | _ \<Rightarrow> fail model_type)"

definition validate_dict :: "(doc \<Rightarrow> 'a result) \<Rightarrow> doc \<Rightarrow> (string \<times> 'a) list result" where
  "validate_dict f d =
     (case d of
        DMap kvs \<Rightarrow> collect (map (\<lambda>(k, v). (k, f v)) kvs)
      | _ \<Rightarrow> fail dict_type)"

record Config =
  settings :: Settings
  blocks :: "(string \<times> Block) list"

definition msg_settings :: string where
  "msg_settings = ''Missing required 'settings' at top-level''"

text \<open>
  \<^verbatim>\<open>Config._flatten_blocks\<close>: the loop over \<^verbatim>\<open>input_dict.items()\<close> stores every
  key but \<^verbatim>\<open>settings\<close> into the ordered dict \<^verbatim>\<open>blocks\<close>.
\<close>

definition flatten_blocks_loop :: "(string \<times> doc) list \<Rightarrow> (string \<times> doc) list" where
  "flatten_blocks_loop input_dict =
     fold (\<lambda>(key, val) blocks. if key = ''settings'' then blocks else dict_set key val blocks)
       input_dict []"

definition flatten_blocks :: "(string \<times> doc) list \<Rightarrow> (string \<times> doc) list result" where
  "flatten_blocks input_dict =
     (if \<not> dict_contains ''settings'' input_dict then fail (value_error msg_settings)
      else Inr [(''settings'', dict_item input_dict ''settings''),
                (''blocks'', DMap (flatten_blocks_loop input_dict))])"

definition Config_fields :: "lax \<Rightarrow> (string \<times> doc) list \<Rightarrow> Config result" where
  "Config_fields L v =
     (let r1 = required v ''settings'' (validate_Settings L);
          r2 = required v ''blocks'' (validate_dict (validate_Block L))
      in case (r1, r2) of
           (Inr s, Inr bs) \<Rightarrow> Inr \<lparr>settings = s, blocks = bs\<rparr>
         | _ \<Rightarrow> Inl (errs_of r1 @ errs_of r2))"

definition validate_Config :: "lax \<Rightarrow> doc \<Rightarrow> Config result" where
  "validate_Config L d =
     (case d of
        DMap v \<Rightarrow>
          (case flatten_blocks v of
             Inl es \<Rightarrow> Inl es
           | Inr v' \<Rightarrow> Config_fields L v')
      | _ \<Rightarrow> fail model_type)"

text \<open>
  \<^verbatim>\<open>load_layout\<close>, on the document the decoder returned for \<open>path\<close>: a validation
  error is raised again with the file name in front.
\<close>

definition load_layout :: "lax \<Rightarrow> string \<Rightarrow> doc \<Rightarrow> (string \<times> error list) + Config" where
  "load_layout L path d =
     (case validate_Config L d of
        Inl es \<Rightarrow> Inl (''failed to parse file '' @ path, es)
      | Inr cfg \<Rightarrow> Inr cfg)"

subsection \<open>Serialization\<close>

text \<open>
  \<^verbatim>\<open>cfg.model_dump_json()\<close>, read back as a document: every model becomes a mapping
  from its field names (not the aliases) to the serialized fields, in declaration order; a
  root model is serialized as its root; an enum as its value; a float that is infinite or
  NaN as null.
\<close>

fun dump_Endianness :: "Endianness \<Rightarrow> doc" where
  "dump_Endianness little = DStr ''little''"
| "dump_Endianness big = DStr ''big''"

definition dump_CrcData :: "CrcData \<Rightarrow> doc" where
  "dump_CrcData c =
     DMap [(''polynomial'', DInt (polynomial c)), (''start'', DInt (start c)),
           (''xor_out'', DInt (xor_out c)), (''ref_in'', DBool (ref_in c)),
           (''ref_out'', DBool (ref_out c))]"

definition dump_Settings :: "Settings \<Rightarrow> doc" where
  "dump_Settings s =
     DMap [(''endianness'', dump_Endianness (endianness s)), (''crc'', dump_CrcData (crc s))]"

fun dump_CrcLocation :: "CrcLocation \<Rightarrow> doc" where
  "dump_CrcLocation (Keyword s) = DStr s"
| "dump_CrcLocation (Address i) = DInt i"

definition dump_Header :: "Header \<Rightarrow> doc" where
  "dump_Header h =
     DMap [(''start_address'', DInt (start_address h)), (''length'', DInt (hdr_length h)),
           (''crc_location'', dump_CrcLocation (crc_location h)),
           (''padding'', DInt (padding h))]"

fun dump_ScalarType :: "ScalarType \<Rightarrow> doc" where
  "dump_ScalarType u8 = DStr ''u8''"
| "dump_ScalarType u16 = DStr ''u16''"
| "dump_ScalarType u32 = DStr ''u32''"
| "dump_ScalarType u64 = DStr ''u64''"
| "dump_ScalarType i8 = DStr ''i8''"
| "dump_ScalarType i16 = DStr ''i16''"
| "dump_ScalarType i32 = DStr ''i32''"
| "dump_ScalarType i64 = DStr ''i64''"
| "dump_ScalarType f32 = DStr ''f32''"
| "dump_ScalarType f64 = DStr ''f64''"

fun dump_SizeSource :: "SizeSource \<Rightarrow> doc" where
  "dump_SizeSource (Single_dim n) = DInt n"
| "dump_SizeSource (Two_dim a b) = DSeq [DInt a, DInt b]"

fun dump_DataValue :: "DataValue \<Rightarrow> doc" where
  "dump_DataValue (VInt i) = DInt i"
| "dump_DataValue (VFloat (Finite r)) = DFloat (Finite r)"
| "dump_DataValue (VFloat _) = DNull"
| "dump_DataValue (VStr s) = DStr s"

fun dump_ValueSource :: "ValueSource \<Rightarrow> doc" where
  "dump_ValueSource (Single v) = dump_DataValue v"
| "dump_ValueSource (Array vs) = DSeq (map dump_DataValue vs)"

fun dump_EntrySource :: "EntrySource \<Rightarrow> doc" where
  "dump_EntrySource (NameSource n) = DMap [(''name'', DStr n)]"
| "dump_EntrySource (ValueLiteral v) = DMap [(''value'', dump_ValueSource v)]"

definition dump_LeafEntry :: "LeafEntry \<Rightarrow> doc" where
  "dump_LeafEntry l =
     DMap [(''scalar_type'', dump_ScalarType (scalar_type l)),
           (''size'', (case leaf_size l of None \<Rightarrow> DNull | Some s \<Rightarrow> dump_SizeSource s)),
           (''source'', dump_EntrySource (source l))]"

fun dump_Entry :: "Entry \<Rightarrow> doc" where
  "dump_Entry (Leaf l) = dump_LeafEntry l"
| "dump_Entry (Group es) = DMap (map (\<lambda>(k, e). (k, dump_Entry e)) es)"

definition dump_Block :: "Block \<Rightarrow> doc" where
  "dump_Block b = DMap [(''header'', dump_Header (header b)), (''data'', dump_Entry (data b))]"

definition dump_Config :: "Config \<Rightarrow> doc" where
  "dump_Config c =
     DMap [(''settings'', dump_Settings (settings c)),
           (''blocks'', DMap (map (\<lambda>(k, b). (k, dump_Block b)) (blocks c)))]"

subsection \<open>Sample inputs\<close>

text \<open>
  A sample of the string parsers of the library, used where a theorem is evaluated at a
  concrete input: it reads only the decimal digits 0 to 9 and the words true and false.
  No evaluation below hands a string to it.
\<close>

definition sample_lax :: lax where
  "sample_lax =
     \<lparr>str_as_int = map_of [(''0'', 0), (''1'', 1), (''2'', 2), (''3'', 3), (''4'', 4),
                            (''5'', 5), (''6'', 6), (''7'', 7), (''8'', 8), (''9'', 9)],
      str_as_bool = map_of [(''true'', True), (''false'', False)]\<rparr>"

definition sample_settings :: doc where
  "sample_settings =
     DMap [(''endianness'', DStr ''little''),
           (''crc'', DMap [(''polynomial'', DInt 7), (''start'', DInt 0), (''xor_out'', DInt 0),
                           (''ref_in'', DBool False), (''ref_out'', DBool False)])]"

definition sample_header :: doc where
  "sample_header =
     DMap [(''start_address'', DInt 0), (''length'', DInt 16), (''crc_location'', DStr ''end'')]"

definition sample_block :: doc where
  "sample_block =
     DMap [(''header'', sample_header),
           (''data'', DMap [(''version'', DMap [(''type'', DStr ''u32''), (''value'', DInt 1)])])]"

definition sample_config :: doc where
  "sample_config = DMap [(''settings'', sample_settings), (''fw'', sample_block)]"



section \<open>Basic facts\<close>

lemma at_loc_Inr_iff: "at_loc i r = Inr x \<longleftrightarrow> r = Inr x"
  by (cases r) (simp_all add: at_loc_def)

lemma at_loc_Inl_iff: "at_loc i r = Inl es \<longleftrightarrow> (\<exists>es'. r = Inl es' \<and> es = map (prefix_loc i) es')"
  by (cases r) (auto simp: at_loc_def)

lemma collect_map_Inr: "collect (map (\<lambda>(k, x). (k, Inr x)) xs) = Inr xs"
  by (induction xs) (auto simp: at_loc_def)

lemma collect_InrD: "collect rs = Inr xs \<Longrightarrow> rs = map (\<lambda>(k, x). (k, Inr x)) xs"
proof (induction rs arbitrary: xs)
  case Nil
  then show ?case by simp
next
  case (Cons p rs)
  obtain k r where p: "p = (k, r)" by (cases p)
  from Cons.prems p obtain x ys where "r = Inr x" "collect rs = Inr ys" "xs = (k, x) # ys"
    by (auto simp: at_loc_def split: sum.splits)
  with Cons.IH p show ?case by simp
qed

lemma collect_Inr_iff: "collect rs = Inr xs \<longleftrightarrow> rs = map (\<lambda>(k, x). (k, Inr x)) xs"
  using collect_InrD collect_map_Inr by metis

lemma collect_list_map_Inr: "collect_list n (map Inr xs) = Inr xs"
  by (induction xs arbitrary: n) (auto simp: at_loc_def)

lemma collect_list_InrD: "collect_list n rs = Inr xs \<Longrightarrow> rs = map Inr xs"
proof (induction rs arbitrary: xs n)
  case Nil
  then show ?case by simp
next
  case (Cons r rs)
  from Cons.prems obtain x ys where "r = Inr x" "collect_list (Suc n) rs = Inr ys" "xs = x # ys"
    by (auto simp: at_loc_def split: sum.splits)
  with Cons.IH show ?case by simp
qed

lemma collect_list_Inr_iff: "collect_list n rs = Inr xs \<longleftrightarrow> rs = map Inr xs"
  using collect_list_InrD collect_list_map_Inr by metis

lemma dict_get_set: "dict_get (dict_set k x kvs) k' = (if k' = k then Some x else dict_get kvs k')"
  by (simp add: dict_get_def dict_set_def update_conv')

lemma dict_get_pop: "dict_get (dict_pop k kvs) k' = (if k' = k then None else dict_get kvs k')"
  by (induction kvs) (auto simp: dict_get_def dict_pop_def)

lemma dict_contains_get: "dict_contains k kvs \<longleftrightarrow> dict_get kvs k \<noteq> None"
  by (simp add: dict_contains_def dict_get_def map_of_eq_None_iff)

lemma dict_item_get: "dict_get kvs k = Some x \<Longrightarrow> dict_item kvs k = x"
  by (simp add: dict_item_def)

lemma dict_contains_set: "dict_contains k (dict_set k' x kvs) \<longleftrightarrow> k = k' \<or> dict_contains k kvs"
  by (auto simp: dict_contains_get dict_get_set)

lemma dict_contains_pop: "dict_contains k (dict_pop k' kvs) \<longleftrightarrow> k \<noteq> k' \<and> dict_contains k kvs"
  by (auto simp: dict_contains_get dict_get_pop)

lemma validate_Entry_leaf_or_not:
  "validate_Entry L d =
     (case validate_LeafEntry L d of
        Inr l \<Rightarrow> Inr (Leaf l)
      | Inl es1 \<Rightarrow>
          (case validate_dict (validate_Entry L) d of
             Inr es \<Rightarrow> Inr (Group es)
           | Inl es2 \<Rightarrow>
               Inl (map (prefix_loc (Arm ''LeafEntry'')) es1
                    @ map (prefix_loc (Arm ''dict[str,Entry]'')) es2)))"
  by (cases d) (simp_all add: validate_dict_def fail_def prefix_loc_def split: sum.splits)

lemma validate_Entry_ok_is_map: "validate_Entry L d = Inr e \<Longrightarrow> \<exists>kvs. d = DMap kvs"
  by (cases d) (auto simp: validate_LeafEntry_def fail_def split: sum.splits)

lemma flatten_source_get:
  assumes "flatten_source v = Inr v'" "k \<notin> {''name'', ''value'', ''source''}"
  shows "dict_get v' k = dict_get v k"
  using assms
  by (auto simp: flatten_source_def Let_def fail_def dict_get_set dict_get_pop split: if_splits)

lemma LeafEntry_ok_type:
  assumes "validate_LeafEntry L (DMap v) = Inr l"
  shows "\<exists>s. dict_get v ''type'' = Some (DStr s) \<and> map_of ScalarType_values s = Some (scalar_type l)"
proof -
  from assms obtain v' where f: "flatten_source v = Inr v'" and ok: "LeafEntry_fields L v' = Inr l"
    by (auto simp: validate_LeafEntry_def split: sum.splits)
  have g: "dict_get v' ''type'' = dict_get v ''type''"
    using flatten_source_get[OF f] by simp
  from ok obtain t where r1: "required v' ''type'' validate_ScalarType = Inr t" and t: "scalar_type l = t"
    by (auto simp: LeafEntry_fields_def Let_def split: sum.splits list.splits)
  from r1 obtain d where d: "dict_get v' ''type'' = Some d" and vd: "validate_ScalarType d = Inr t"
    by (auto simp: required_def at_loc_Inr_iff split: option.splits)
  from vd obtain s where "d = DStr s" "map_of ScalarType_values s = Some t"
    by (cases d) (auto simp: fail_def split: option.splits)
  with d g t show ?thesis by simp
qed

lemma leaf_fails_on_entries:
  assumes "\<forall>(k, v) \<in> set kvs. \<exists>e. validate_Entry L v = Inr e"
  shows "\<exists>es. validate_LeafEntry L (DMap kvs) = Inl es"
proof (cases "validate_LeafEntry L (DMap kvs)")
  case (Inl es)
  then show ?thesis by simp
next
  case (Inr l)
  from LeafEntry_ok_type[OF Inr] obtain s where s: "dict_get kvs ''type'' = Some (DStr s)" by blast
  then have "(''type'', DStr s) \<in> set kvs" by (simp add: dict_get_def map_of_SomeD)
  with assms obtain e where "validate_Entry L (DStr s) = Inr e" by blast
  then show ?thesis using validate_Entry_ok_is_map by blast
qed

lemma group_of_valid_children:
  assumes "\<forall>(k, v) \<in> set kvs. \<exists>e. validate_Entry L v = Inr e"
  shows "\<exists>es. validate_Entry L (DMap kvs) = Inr (Group es) \<and> map fst es = map fst kvs
     \<and> map (\<lambda>(k, v). (k, validate_Entry L v)) kvs = map (\<lambda>(k, e). (k, Inr e)) es"
proof -
  from leaf_fails_on_entries[OF assms] obtain es1 where l: "validate_LeafEntry L (DMap kvs) = Inl es1" by blast
  from assms have "\<exists>es. map (\<lambda>(k, v). (k, validate_Entry L v)) kvs = map (\<lambda>(k, e). (k, Inr e)) es"
  proof (induction kvs)
    case Nil
    then show ?case by simp
  next
    case (Cons p kvs)
    obtain k v where p: "p = (k, v)" by (cases p)
    from Cons.prems p obtain e where e: "validate_Entry L v = Inr e" by auto
    from Cons obtain es where "map (\<lambda>(k, v). (k, validate_Entry L v)) kvs = map (\<lambda>(k, e). (k, Inr e)) es" by auto
    then have "map (\<lambda>(k, v). (k, validate_Entry L v)) (p # kvs) = map (\<lambda>(k, e). (k, Inr e)) ((k, e) # es)"
      using p e by simp
    then show ?case by blast
  qed
  then obtain es where es: "map (\<lambda>(k, v). (k, validate_Entry L v)) kvs = map (\<lambda>(k, e). (k, Inr e)) es" by blast
  then have c: "collect (map (\<lambda>(k, v). (k, validate_Entry L v)) kvs) = Inr es"
    by (simp add: collect_Inr_iff)
  have "map fst (map (\<lambda>(k, v). (k, validate_Entry L v)) kvs) = map fst (map (\<lambda>(k, e). (k, Inr e :: Entry result)) es)"
    using es by simp
  then have "map fst es = map fst kvs"
    by (simp add: case_prod_unfold comp_def)
  with l c es show ?thesis by simp
qed

section \<open>Empty groups\<close>




lemma validate_Entry_GroupD:
  assumes "validate_Entry L (DMap kvs) = Inr (Group es)"
  shows "map (\<lambda>(k, v). (k, validate_Entry L v)) kvs = map (\<lambda>(k, e). (k, Inr e)) es"
  using assms by (auto split: sum.splits dest: collect_InrD)






section \<open>Leaf entries: name and value\<close>

lemma flatten_source_both:
  "dict_contains ''name'' v \<Longrightarrow> dict_contains ''value'' v \<Longrightarrow>
   flatten_source v = Inl [Error [] (value_error msg_both)]"
  by (simp add: flatten_source_def fail_def)

lemma flatten_source_neither:
  "\<not> dict_contains ''name'' v \<Longrightarrow> \<not> dict_contains ''value'' v \<Longrightarrow>
   flatten_source v = Inl [Error [] (value_error msg_neither)]"
  by (simp add: flatten_source_def fail_def)

lemma flatten_source_name:
  "dict_contains ''name'' v \<Longrightarrow> \<not> dict_contains ''value'' v \<Longrightarrow>
   flatten_source v
     = Inr (dict_set ''source'' (DMap [(''name'', dict_item v ''name'')]) (dict_pop ''name'' v))"
  by (simp add: flatten_source_def)

lemma flatten_source_value:
  "\<not> dict_contains ''name'' v \<Longrightarrow> dict_contains ''value'' v \<Longrightarrow>
   flatten_source v
     = Inr (dict_set ''source'' (DMap [(''value'', dict_item v ''value'')]) (dict_pop ''value'' v))"
  by (simp add: flatten_source_def)

lemma validate_EntrySource_name:
  "validate_EntrySource (DMap [(''name'', d)]) = Inr src
   \<longleftrightarrow> (\<exists>n. d = DStr n \<and> src = NameSource n)"
  by (cases d)
     (auto simp: validate_EntrySource_def validate_NameSource_def validate_ValueLiteral_def
       required_def dict_get_def at_loc_def fail_def split: sum.splits)

lemma validate_EntrySource_value:
  "validate_EntrySource (DMap [(''value'', d)]) = Inr src
   \<longleftrightarrow> (\<exists>vs. validate_ValueSource d = Inr vs \<and> src = ValueLiteral vs)"
  by (auto simp: validate_EntrySource_def validate_NameSource_def validate_ValueLiteral_def
       required_def dict_get_def at_loc_def fail_def split: sum.splits)

lemma LeafEntry_fields_source:
  assumes "LeafEntry_fields L v = Inr l"
  shows "\<exists>d. dict_get v ''source'' = Some d \<and> validate_EntrySource d = Inr (source l)"
  using assms
  by (auto simp: LeafEntry_fields_def Let_def required_def at_loc_Inr_iff
      split: sum.splits list.splits option.splits)

lemma LeafEntry_ok_name:
  assumes "dict_contains ''name'' v" "\<not> dict_contains ''value'' v"
    and "validate_LeafEntry L (DMap v) = Inr l"
  shows "\<exists>n. dict_get v ''name'' = Some (DStr n) \<and> source l = NameSource n"
proof -
  from assms(1) obtain d where d: "dict_get v ''name'' = Some d"
    by (auto simp: dict_contains_get)
  have f: "flatten_source v = Inr (dict_set ''source'' (DMap [(''name'', d)]) (dict_pop ''name'' v))"
    using flatten_source_name[OF assms(1,2)] dict_item_get[OF d] by simp
  with assms(3) have "LeafEntry_fields L (dict_set ''source'' (DMap [(''name'', d)]) (dict_pop ''name'' v)) = Inr l"
    by (simp add: validate_LeafEntry_def)
  from LeafEntry_fields_source[OF this]
  have "validate_EntrySource (DMap [(''name'', d)]) = Inr (source l)"
    by (simp add: dict_get_set)
  then show ?thesis using d by (auto simp: validate_EntrySource_name)
qed

lemma LeafEntry_ok_value:
  assumes "\<not> dict_contains ''name'' v" "dict_contains ''value'' v"
    and "validate_LeafEntry L (DMap v) = Inr l"
  shows "\<exists>x vs. dict_get v ''value'' = Some x \<and> validate_ValueSource x = Inr vs
           \<and> source l = ValueLiteral vs"
proof -
  from assms(2) obtain d where d: "dict_get v ''value'' = Some d"
    by (auto simp: dict_contains_get)
  have f: "flatten_source v = Inr (dict_set ''source'' (DMap [(''value'', d)]) (dict_pop ''value'' v))"
    using flatten_source_value[OF assms(1,2)] dict_item_get[OF d] by simp
  with assms(3) have "LeafEntry_fields L (dict_set ''source'' (DMap [(''value'', d)]) (dict_pop ''value'' v)) = Inr l"
    by (simp add: validate_LeafEntry_def)
  from LeafEntry_fields_source[OF this]
  have "validate_EntrySource (DMap [(''value'', d)]) = Inr (source l)"
    by (simp add: dict_get_set)
  then show ?thesis using d by (auto simp: validate_EntrySource_value)
qed

lemma extra_errors_none:
  "set (map fst v) \<subseteq> set declared \<Longrightarrow> extra_errors declared v = []"
  by (auto simp: extra_errors_def filter_empty_conv)

lemma LeafEntry_fields_accepts:
  assumes "dict_get v ''type'' = Some td" "validate_ScalarType td = Inr t"
    and "case dict_get v ''size'' of None \<Rightarrow> sz = None
         | Some sd \<Rightarrow> validate_optional (validate_SizeSource L) sd = Inr sz"
    and "dict_get v ''source'' = Some d" "validate_EntrySource d = Inr src"
    and "set (map fst v) \<subseteq> {''type'', ''size'', ''source''}"
  shows "LeafEntry_fields L v = Inr \<lparr>scalar_type = t, leaf_size = sz, source = src\<rparr>"
proof -
  have r1: "required v ''type'' validate_ScalarType = Inr t"
    using assms(1,2) by (simp add: required_def at_loc_def)
  have r2: "with_default v ''size'' None (validate_optional (validate_SizeSource L)) = Inr sz"
    using assms(3) by (simp add: with_default_def at_loc_def split: option.splits)
  have r3: "required v ''source'' validate_EntrySource = Inr src"
    using assms(4,5) by (simp add: required_def at_loc_def)
  have ex: "extra_errors [''type'', ''size'', ''source''] v = []"
    using assms(6) by (intro extra_errors_none) simp
  show ?thesis by (simp add: LeafEntry_fields_def r1 r2 r3 ex)
qed

lemma flattened_keys:
  assumes "set (map fst kvs) \<subseteq> {''type'', ''size'', k}"
  shows "set (map fst (dict_set ''source'' x (dict_pop k kvs))) \<subseteq> {''type'', ''size'', ''source''}"
proof
  fix k'
  assume "k' \<in> set (map fst (dict_set ''source'' x (dict_pop k kvs)))"
  then have "dict_contains k' (dict_set ''source'' x (dict_pop k kvs))"
    by (simp add: dict_contains_def)
  then have "k' = ''source'' \<or> (k' \<noteq> k \<and> dict_contains k' kvs)"
    by (simp add: dict_contains_set dict_contains_pop)
  then show "k' \<in> {''type'', ''size'', ''source''}"
    using assms by (auto simp: dict_contains_def)
qed

lemma LeafEntry_name_accepted:
  assumes "set (map fst kvs) \<subseteq> {''type'', ''size'', ''name''}"
    and "dict_get kvs ''name'' = Some (DStr n)"
    and "dict_get kvs ''type'' = Some td" "validate_ScalarType td = Inr t"
    and "case dict_get kvs ''size'' of None \<Rightarrow> sz = None
         | Some sd \<Rightarrow> validate_optional (validate_SizeSource L) sd = Inr sz"
  shows "validate_LeafEntry L (DMap kvs)
     = Inr \<lparr>scalar_type = t, leaf_size = sz, source = NameSource n\<rparr>"
proof -
  let ?v = "dict_set ''source'' (DMap [(''name'', DStr n)]) (dict_pop ''name'' kvs)"
  have c: "dict_contains ''name'' kvs" using assms(2) by (simp add: dict_contains_get)
  have nv: "\<not> dict_contains ''value'' kvs" using assms(1) by (auto simp: dict_contains_def)
  have f: "flatten_source kvs = Inr ?v"
    using flatten_source_name[OF c nv] dict_item_get[OF assms(2)] by simp
  have "LeafEntry_fields L ?v = Inr \<lparr>scalar_type = t, leaf_size = sz, source = NameSource n\<rparr>"
  proof (rule LeafEntry_fields_accepts)
    show "dict_get ?v ''type'' = Some td" using assms(3) by (simp add: dict_get_set dict_get_pop)
    show "validate_ScalarType td = Inr t" by (rule assms(4))
    show "case dict_get ?v ''size'' of None \<Rightarrow> sz = None
         | Some sd \<Rightarrow> validate_optional (validate_SizeSource L) sd = Inr sz"
      using assms(5) by (simp add: dict_get_set dict_get_pop)
    show "dict_get ?v ''source'' = Some (DMap [(''name'', DStr n)])" by (simp add: dict_get_set)
    show "validate_EntrySource (DMap [(''name'', DStr n)]) = Inr (NameSource n)"
      by (simp add: validate_EntrySource_name)
    show "set (map fst ?v) \<subseteq> {''type'', ''size'', ''source''}"
      using assms(1) by (rule flattened_keys)
  qed
  with f show ?thesis by (simp add: validate_LeafEntry_def)
qed

lemma LeafEntry_value_accepted:
  assumes "set (map fst kvs) \<subseteq> {''type'', ''size'', ''value''}"
    and "dict_get kvs ''value'' = Some x" "validate_ValueSource x = Inr vs"
    and "dict_get kvs ''type'' = Some td" "validate_ScalarType td = Inr t"
    and "case dict_get kvs ''size'' of None \<Rightarrow> sz = None
         | Some sd \<Rightarrow> validate_optional (validate_SizeSource L) sd = Inr sz"
  shows "validate_LeafEntry L (DMap kvs)
     = Inr \<lparr>scalar_type = t, leaf_size = sz, source = ValueLiteral vs\<rparr>"
proof -
  let ?v = "dict_set ''source'' (DMap [(''value'', x)]) (dict_pop ''value'' kvs)"
  have c: "dict_contains ''value'' kvs" using assms(2) by (simp add: dict_contains_get)
  have nn: "\<not> dict_contains ''name'' kvs" using assms(1) by (auto simp: dict_contains_def)
  have f: "flatten_source kvs = Inr ?v"
    using flatten_source_value[OF nn c] dict_item_get[OF assms(2)] by simp
  have "LeafEntry_fields L ?v = Inr \<lparr>scalar_type = t, leaf_size = sz, source = ValueLiteral vs\<rparr>"
  proof (rule LeafEntry_fields_accepts)
    show "dict_get ?v ''type'' = Some td" using assms(4) by (simp add: dict_get_set dict_get_pop)
    show "validate_ScalarType td = Inr t" by (rule assms(5))
    show "case dict_get ?v ''size'' of None \<Rightarrow> sz = None
         | Some sd \<Rightarrow> validate_optional (validate_SizeSource L) sd = Inr sz"
      using assms(6) by (simp add: dict_get_set dict_get_pop)
    show "dict_get ?v ''source'' = Some (DMap [(''value'', x)])" by (simp add: dict_get_set)
    show "validate_EntrySource (DMap [(''value'', x)]) = Inr (ValueLiteral vs)"
      using assms(3) by (simp add: validate_EntrySource_value)
    show "set (map fst ?v) \<subseteq> {''type'', ''size'', ''source''}"
      using assms(1) by (rule flattened_keys)
  qed
  with f show ?thesis by (simp add: validate_LeafEntry_def)
qed

text \<open>
  Claim C3. A leaf document with both \<^verbatim>\<open>name\<close> and \<^verbatim>\<open>value\<close> fails with the
  mutual-exclusion error alone, and one with neither fails with the missing-field error
  alone, whatever its other keys (so for every scalar type and every size). With exactly
  one of them, \<^verbatim>\<open>_flatten_source\<close> moves it into the single key \<^verbatim>\<open>source\<close>. A leaf
  of recognized keys whose \<^verbatim>\<open>type\<close> and \<^verbatim>\<open>size\<close> are valid then validates: with a
  string \<^verbatim>\<open>name\<close> its \<open>source\<close> is that name, with a valid \<^verbatim>\<open>value\<close> it is the
  validated literal. Conversely, every leaf that validates has the name, or the validated
  literal, of its document as its \<open>source\<close>.
\<close>

theorem name_value_exclusive:
  "(dict_contains ''name'' kvs \<and> dict_contains ''value'' kvs \<longrightarrow>
      validate_LeafEntry L (DMap kvs) = Inl [Error [] (value_error msg_both)])
   \<and> (\<not> dict_contains ''name'' kvs \<and> \<not> dict_contains ''value'' kvs \<longrightarrow>
      validate_LeafEntry L (DMap kvs) = Inl [Error [] (value_error msg_neither)])
   \<and> (dict_contains ''name'' kvs \<and> \<not> dict_contains ''value'' kvs \<longrightarrow>
      flatten_source kvs
        = Inr (dict_set ''source'' (DMap [(''name'', dict_item kvs ''name'')]) (dict_pop ''name'' kvs))
      \<and> (\<forall>l. validate_LeafEntry L (DMap kvs) = Inr l \<longrightarrow>
            (\<exists>n. dict_get kvs ''name'' = Some (DStr n) \<and> source l = NameSource n)))
   \<and> (\<not> dict_contains ''name'' kvs \<and> dict_contains ''value'' kvs \<longrightarrow>
      flatten_source kvs
        = Inr (dict_set ''source'' (DMap [(''value'', dict_item kvs ''value'')]) (dict_pop ''value'' kvs))
      \<and> (\<forall>l. validate_LeafEntry L (DMap kvs) = Inr l \<longrightarrow>
            (\<exists>x vs. dict_get kvs ''value'' = Some x \<and> validate_ValueSource x = Inr vs
               \<and> source l = ValueLiteral vs)))
   \<and> (set (map fst kvs) \<subseteq> {''type'', ''size'', ''name''}
        \<and> dict_get kvs ''name'' = Some (DStr n)
        \<and> dict_get kvs ''type'' = Some td \<and> validate_ScalarType td = Inr t
        \<and> (case dict_get kvs ''size'' of None \<Rightarrow> sz = None
            | Some sd \<Rightarrow> validate_optional (validate_SizeSource L) sd = Inr sz) \<longrightarrow>
      validate_LeafEntry L (DMap kvs)
        = Inr \<lparr>scalar_type = t, leaf_size = sz, source = NameSource n\<rparr>)
   \<and> (set (map fst kvs) \<subseteq> {''type'', ''size'', ''value''}
        \<and> dict_get kvs ''value'' = Some x \<and> validate_ValueSource x = Inr vs
        \<and> dict_get kvs ''type'' = Some td \<and> validate_ScalarType td = Inr t
        \<and> (case dict_get kvs ''size'' of None \<Rightarrow> sz = None
            | Some sd \<Rightarrow> validate_optional (validate_SizeSource L) sd = Inr sz) \<longrightarrow>
      validate_LeafEntry L (DMap kvs)
        = Inr \<lparr>scalar_type = t, leaf_size = sz, source = ValueLiteral vs\<rparr>)"
proof (intro conjI impI allI)
  assume "dict_contains ''name'' kvs \<and> dict_contains ''value'' kvs"
  then show "validate_LeafEntry L (DMap kvs) = Inl [Error [] (value_error msg_both)]"
    by (simp add: validate_LeafEntry_def flatten_source_both)
next
  assume "\<not> dict_contains ''name'' kvs \<and> \<not> dict_contains ''value'' kvs"
  then show "validate_LeafEntry L (DMap kvs) = Inl [Error [] (value_error msg_neither)]"
    by (simp add: validate_LeafEntry_def flatten_source_neither)
next
  assume "dict_contains ''name'' kvs \<and> \<not> dict_contains ''value'' kvs"
  then show "flatten_source kvs
        = Inr (dict_set ''source'' (DMap [(''name'', dict_item kvs ''name'')]) (dict_pop ''name'' kvs))"
    by (simp add: flatten_source_name)
next
  fix l
  assume "dict_contains ''name'' kvs \<and> \<not> dict_contains ''value'' kvs"
    and "validate_LeafEntry L (DMap kvs) = Inr l"
  then show "\<exists>n. dict_get kvs ''name'' = Some (DStr n) \<and> source l = NameSource n"
    using LeafEntry_ok_name by blast
next
  assume "\<not> dict_contains ''name'' kvs \<and> dict_contains ''value'' kvs"
  then show "flatten_source kvs
        = Inr (dict_set ''source'' (DMap [(''value'', dict_item kvs ''value'')]) (dict_pop ''value'' kvs))"
    by (simp add: flatten_source_value)
next
  fix l
  assume "\<not> dict_contains ''name'' kvs \<and> dict_contains ''value'' kvs"
    and "validate_LeafEntry L (DMap kvs) = Inr l"
  then show "\<exists>x vs. dict_get kvs ''value'' = Some x \<and> validate_ValueSource x = Inr vs
               \<and> source l = ValueLiteral vs"
    using LeafEntry_ok_value by blast
next
  assume "set (map fst kvs) \<subseteq> {''type'', ''size'', ''name''}
        \<and> dict_get kvs ''name'' = Some (DStr n)
        \<and> dict_get kvs ''type'' = Some td \<and> validate_ScalarType td = Inr t
        \<and> (case dict_get kvs ''size'' of None \<Rightarrow> sz = None
            | Some sd \<Rightarrow> validate_optional (validate_SizeSource L) sd = Inr sz)"
  then show "validate_LeafEntry L (DMap kvs)
        = Inr \<lparr>scalar_type = t, leaf_size = sz, source = NameSource n\<rparr>"
    using LeafEntry_name_accepted[of kvs n td t sz L] by blast
next
  assume "set (map fst kvs) \<subseteq> {''type'', ''size'', ''value''}
        \<and> dict_get kvs ''value'' = Some x \<and> validate_ValueSource x = Inr vs
        \<and> dict_get kvs ''type'' = Some td \<and> validate_ScalarType td = Inr t
        \<and> (case dict_get kvs ''size'' of None \<Rightarrow> sz = None
            | Some sd \<Rightarrow> validate_optional (validate_SizeSource L) sd = Inr sz)"
  then show "validate_LeafEntry L (DMap kvs)
        = Inr \<lparr>scalar_type = t, leaf_size = sz, source = ValueLiteral vs\<rparr>"
    using LeafEntry_value_accepted[of kvs x vs td t sz L] by blast
qed

lemma sample_type_u16: "validate_ScalarType (DStr ''u16'') = Inr u16"
  by (simp add: ScalarType_values_def)

lemma sample_type_u32: "validate_ScalarType (DStr ''u32'') = Inr u32"
  by (simp add: ScalarType_values_def)

lemma sample_size_pair:
  "validate_optional (validate_SizeSource sample_lax) (DSeq [DInt 2, DInt 3])
     = Inr (Some (Two_dim 2 3))"
  by (simp add: validate_optional_def validate_SizeSource_def SizeSource_coerce_def at_loc_def)

lemma sample_literal_one: "validate_ValueSource (DInt 1) = Inr (Single (VInt 1))"
  by (simp add: validate_ValueSource_def)

theorem name_value_exclusive_witness:
  "validate_LeafEntry sample_lax
       (DMap [(''type'', DStr ''f32''), (''name'', DStr ''x''), (''value'', DFloat (Finite 1))])
     = Inl [Error [] (value_error msg_both)]
   \<and> validate_LeafEntry sample_lax (DMap [(''type'', DStr ''u8''), (''size'', DInt 4)])
     = Inl [Error [] (value_error msg_neither)]
   \<and> flatten_source [(''type'', DStr ''u16''), (''size'', DSeq [DInt 2, DInt 3]), (''name'', DStr ''table'')]
     = Inr [(''type'', DStr ''u16''), (''size'', DSeq [DInt 2, DInt 3]),
            (''source'', DMap [(''name'', DStr ''table'')])]
   \<and> validate_LeafEntry sample_lax
       (DMap [(''type'', DStr ''u16''), (''size'', DSeq [DInt 2, DInt 3]), (''name'', DStr ''table'')])
     = Inr \<lparr>scalar_type = u16, leaf_size = Some (Two_dim 2 3), source = NameSource ''table''\<rparr>
   \<and> flatten_source [(''type'', DStr ''u32''), (''value'', DInt 1)]
     = Inr [(''type'', DStr ''u32''), (''source'', DMap [(''value'', DInt 1)])]
   \<and> validate_LeafEntry sample_lax (DMap [(''type'', DStr ''u32''), (''value'', DInt 1)])
     = Inr \<lparr>scalar_type = u32, leaf_size = None, source = ValueLiteral (Single (VInt 1))\<rparr>"
proof -
  let ?both = "[(''type'', DStr ''f32''), (''name'', DStr ''x''), (''value'', DFloat (Finite 1))]"
  let ?neither = "[(''type'', DStr ''u8''), (''size'', DInt 4)]"
  let ?named = "[(''type'', DStr ''u16''), (''size'', DSeq [DInt 2, DInt 3]), (''name'', DStr ''table'')]"
  let ?lit = "[(''type'', DStr ''u32''), (''value'', DInt 1)]"
  note named = name_value_exclusive[of ?named sample_lax "''table''" "DStr ''u16''" u16
      "Some (Two_dim 2 3)" "DInt 0" "Single (VInt 0)"]
  note lit = name_value_exclusive[of ?lit sample_lax "''x''" "DStr ''u32''" u32
      None "DInt 1" "Single (VInt 1)"]
  have w1: "validate_LeafEntry sample_lax (DMap ?both) = Inl [Error [] (value_error msg_both)]"
    using name_value_exclusive[of ?both sample_lax] by (simp add: dict_contains_def)
  have w2: "validate_LeafEntry sample_lax (DMap ?neither) = Inl [Error [] (value_error msg_neither)]"
    using name_value_exclusive[of ?neither sample_lax] by (simp add: dict_contains_def)
  have w3: "flatten_source ?named = Inr [(''type'', DStr ''u16''), (''size'', DSeq [DInt 2, DInt 3]),
            (''source'', DMap [(''name'', DStr ''table'')])]"
    using named by (simp add: dict_contains_def dict_set_def dict_pop_def dict_item_def dict_get_def)
  have w4: "validate_LeafEntry sample_lax (DMap ?named)
     = Inr \<lparr>scalar_type = u16, leaf_size = Some (Two_dim 2 3), source = NameSource ''table''\<rparr>"
    using named sample_type_u16 sample_size_pair by (simp add: dict_get_def)
  have w5: "flatten_source ?lit = Inr [(''type'', DStr ''u32''), (''source'', DMap [(''value'', DInt 1)])]"
    using lit by (simp add: dict_contains_def dict_set_def dict_pop_def dict_item_def dict_get_def)
  have w6: "validate_LeafEntry sample_lax (DMap ?lit)
     = Inr \<lparr>scalar_type = u32, leaf_size = None, source = ValueLiteral (Single (VInt 1))\<rparr>"
    using lit sample_type_u32 sample_literal_one by (simp add: dict_get_def)
  from w1 w2 w3 w4 w5 w6 show ?thesis by blast
qed

section \<open>Leaf or group\<close>

lemma validate_Entry_Leaf_iff: "validate_Entry L d = Inr (Leaf l) \<longleftrightarrow> validate_LeafEntry L d = Inr l"
  by (cases d) (auto split: sum.splits)

lemma validate_Entry_GroupD_leaf:
  assumes "validate_Entry L (DMap kvs) = Inr (Group es)"
  shows "\<exists>es1. validate_LeafEntry L (DMap kvs) = Inl es1"
  using assms by (auto split: sum.splits)

lemma group_type_is_map:
  assumes "validate_Entry L (DMap kvs) = Inr (Group es)" "dict_get kvs ''type'' = Some t"
  shows "\<exists>m. t = DMap m"
proof -
  have m: "map (\<lambda>(k, v). (k, validate_Entry L v)) kvs = map (\<lambda>(k, e). (k, Inr e)) es"
    using validate_Entry_GroupD[OF assms(1)] .
  from assms(2) have "(''type'', t) \<in> set kvs" by (simp add: dict_get_def map_of_SomeD)
  then have "(''type'', validate_Entry L t) \<in> set (map (\<lambda>(k, v). (k, validate_Entry L v)) kvs)"
    by force
  then have "(''type'', validate_Entry L t) \<in> set (map (\<lambda>(k, e). (k, Inr e)) es)"
    using m by simp
  then obtain e where "validate_Entry L t = Inr e" by auto
  then show ?thesis by (rule validate_Entry_ok_is_map)
qed

lemma no_type_is_group:
  assumes "\<not> dict_contains ''type'' kvs" "validate_Entry L (DMap kvs) = Inr e"
  shows "\<exists>es. e = Group es \<and> map fst es = map fst kvs"
proof -
  have nl: "\<And>l. validate_LeafEntry L (DMap kvs) \<noteq> Inr l"
    using assms(1) LeafEntry_ok_type by (fastforce simp: dict_contains_get)
  with assms(2) obtain es where e: "e = Group es"
    and c: "collect (map (\<lambda>(k, v). (k, validate_Entry L v)) kvs) = Inr es"
    by (auto split: sum.splits)
  from collect_InrD[OF c]
  have "map fst (map (\<lambda>(k, v). (k, validate_Entry L v)) kvs)
      = map fst (map (\<lambda>(k, e). (k, Inr e :: Entry result)) es)"
    by simp
  then have "map fst es = map fst kvs" by (simp add: case_prod_unfold comp_def)
  with e show ?thesis by simp
qed

text \<open>
  Claim C1 states that a node is a leaf if and only if it is a mapping with a
  \<^verbatim>\<open>type\<close> key, and that no node with a \<^verbatim>\<open>type\<close> key validates as a group. The
  union offers the node to both arms, so a mapping whose \<^verbatim>\<open>type\<close> key holds a child
  entry is a group with a child of that name.
\<close>

theorem type_key_group_counterexample:
  "validate_Entry sample_lax (DMap [(''type'', DMap [])]) = Inr (Group [(''type'', Group [])])"
  by code_simp

text \<open>
  Claim C1, amended. A node is a leaf exactly when \<^verbatim>\<open>LeafEntry\<close> accepts it, and then
  it is a mapping whose \<^verbatim>\<open>type\<close> key holds the name of its scalar type. A mapping
  without a \<^verbatim>\<open>type\<close> key that validates is a group of its keys, in order. A mapping
  with a \<^verbatim>\<open>type\<close> key validates as a group only when the value of \<^verbatim>\<open>type\<close> is
  itself a mapping, and never while \<^verbatim>\<open>LeafEntry\<close> accepts the node.
\<close>

theorem leaf_or_group:
  "(validate_Entry L d = Inr (Leaf l) \<longleftrightarrow> validate_LeafEntry L d = Inr l)
   \<and> (validate_Entry L d = Inr (Leaf l) \<longrightarrow>
        (\<exists>kvs s. d = DMap kvs \<and> dict_get kvs ''type'' = Some (DStr s)
           \<and> map_of ScalarType_values s = Some (scalar_type l)))
   \<and> (\<not> dict_contains ''type'' kvs \<and> validate_Entry L (DMap kvs) = Inr e \<longrightarrow>
        (\<exists>es. e = Group es \<and> map fst es = map fst kvs))
   \<and> (validate_Entry L (DMap kvs) = Inr (Group es) \<longrightarrow>
        (\<exists>es1. validate_LeafEntry L (DMap kvs) = Inl es1)
        \<and> (\<forall>t. dict_get kvs ''type'' = Some t \<longrightarrow> (\<exists>m. t = DMap m)))"
proof (intro conjI impI allI)
  show "validate_Entry L d = Inr (Leaf l) \<longleftrightarrow> validate_LeafEntry L d = Inr l"
    by (rule validate_Entry_Leaf_iff)
next
  assume a: "validate_Entry L d = Inr (Leaf l)"
  then obtain kvs where d: "d = DMap kvs" using validate_Entry_ok_is_map by blast
  from a have "validate_LeafEntry L d = Inr l" by (simp add: validate_Entry_Leaf_iff)
  with d LeafEntry_ok_type show "\<exists>kvs s. d = DMap kvs \<and> dict_get kvs ''type'' = Some (DStr s)
           \<and> map_of ScalarType_values s = Some (scalar_type l)" by blast
next
  assume "\<not> dict_contains ''type'' kvs \<and> validate_Entry L (DMap kvs) = Inr e"
  then show "\<exists>es. e = Group es \<and> map fst es = map fst kvs" using no_type_is_group by blast
next
  assume "validate_Entry L (DMap kvs) = Inr (Group es)"
  then show "\<exists>es1. validate_LeafEntry L (DMap kvs) = Inl es1" by (rule validate_Entry_GroupD_leaf)
next
  fix t
  assume "validate_Entry L (DMap kvs) = Inr (Group es)" "dict_get kvs ''type'' = Some t"
  then show "\<exists>m. t = DMap m" by (rule group_type_is_map)
qed

lemma sample_entry_leaf:
  "validate_Entry sample_lax (DMap [(''type'', DStr ''u32''), (''value'', DInt 1)])
     = Inr (Leaf \<lparr>scalar_type = u32, leaf_size = None, source = ValueLiteral (Single (VInt 1))\<rparr>)"
  by code_simp

lemma sample_entry_group:
  "validate_Entry sample_lax (DMap [(''version'', DMap [(''type'', DStr ''u32''), (''value'', DInt 1)])])
     = Inr (Group [(''version'',
          Leaf \<lparr>scalar_type = u32, leaf_size = None, source = ValueLiteral (Single (VInt 1))\<rparr>)])"
  by code_simp

lemma sample_entry_type_group:
  "validate_Entry sample_lax (DMap [(''type'', DMap [])]) = Inr (Group [(''type'', Group [])])"
  by code_simp

theorem leaf_or_group_witness:
  "validate_LeafEntry sample_lax (DMap [(''type'', DStr ''u32''), (''value'', DInt 1)])
     = Inr \<lparr>scalar_type = u32, leaf_size = None, source = ValueLiteral (Single (VInt 1))\<rparr>
   \<and> (\<exists>kvs s. DMap [(''type'', DStr ''u32''), (''value'', DInt 1)] = DMap kvs
         \<and> dict_get kvs ''type'' = Some (DStr s) \<and> map_of ScalarType_values s = Some u32)
   \<and> (\<exists>es. Group [(''version'',
          Leaf \<lparr>scalar_type = u32, leaf_size = None, source = ValueLiteral (Single (VInt 1))\<rparr>)]
         = Group es \<and> map fst es = [''version''])
   \<and> (\<exists>es1. validate_LeafEntry sample_lax (DMap [(''type'', DMap [])]) = Inl es1)
   \<and> (\<exists>m. (DMap [] :: doc) = DMap m)"
proof -
  let ?leaf = "DMap [(''type'', DStr ''u32''), (''value'', DInt 1)]"
  let ?l = "\<lparr>scalar_type = u32, leaf_size = None, source = ValueLiteral (Single (VInt 1))\<rparr>"
  let ?g = "[(''version'', ?leaf)]"
  note a = leaf_or_group[of sample_lax ?leaf ?l ?g "Group [(''version'', Leaf ?l)]" "[]"]
  note b = leaf_or_group[of sample_lax ?leaf ?l "[(''type'', DMap [])]" "Group []" "[(''type'', Group [])]"]
  have w1: "validate_LeafEntry sample_lax ?leaf = Inr ?l"
    using a sample_entry_leaf by simp
  have w2: "\<exists>kvs s. ?leaf = DMap kvs \<and> dict_get kvs ''type'' = Some (DStr s)
         \<and> map_of ScalarType_values s = Some u32"
    using a sample_entry_leaf by simp
  have w3: "\<exists>es. Group [(''version'', Leaf ?l)] = Group es \<and> map fst es = [''version'']"
    using a sample_entry_group by (simp add: dict_contains_def)
  have w4: "(\<exists>es1. validate_LeafEntry sample_lax (DMap [(''type'', DMap [])]) = Inl es1)
     \<and> (\<forall>t. dict_get [(''type'', DMap [])] ''type'' = Some t \<longrightarrow> (\<exists>m. t = DMap m))"
    using b sample_entry_type_group by blast
  from w1 w2 w3 w4 show ?thesis by (simp add: dict_get_def)
qed

section \<open>Unrecognized keys of a leaf\<close>

lemma flatten_source_keeps_key:
  assumes "flatten_source v = Inr v'" "dict_contains k v" "k \<noteq> ''name''" "k \<noteq> ''value''"
  shows "dict_contains k v'"
  using assms
  by (auto simp: flatten_source_def Let_def fail_def dict_contains_set dict_contains_pop
      split: if_splits)

lemma extra_errors_mem:
  "dict_contains k v \<Longrightarrow> k \<notin> set declared \<Longrightarrow>
   Error [Key k] extra_forbidden \<in> set (extra_errors declared v)"
  by (auto simp: extra_errors_def dict_contains_def)

lemma LeafEntry_fields_extra:
  assumes "e \<in> set (extra_errors [''type'', ''size'', ''source''] v)"
  shows "\<exists>es. LeafEntry_fields L v = Inl es \<and> e \<in> set es"
proof -
  from assms obtain x xs where "extra_errors [''type'', ''size'', ''source''] v = x # xs"
    by (cases "extra_errors [''type'', ''size'', ''source''] v") auto
  then show ?thesis using assms
    by (auto simp: LeafEntry_fields_def Let_def split: sum.splits)
qed

text \<open>
  Claim C4 states that any key outside \<^verbatim>\<open>type\<close>, \<^verbatim>\<open>size\<close>, \<^verbatim>\<open>name\<close> and
  \<^verbatim>\<open>value\<close> makes the leaf fail with an unrecognized-field error, whatever the other
  keys. A key \<^verbatim>\<open>source\<close> beside \<^verbatim>\<open>name\<close> is overwritten by \<^verbatim>\<open>_flatten_source\<close> and
  the leaf validates; and a leaf with neither \<^verbatim>\<open>name\<close> nor \<^verbatim>\<open>value\<close> fails in
  \<^verbatim>\<open>_flatten_source\<close>, before its keys are checked, with that error alone.
\<close>

theorem unrecognized_key_counterexample:
  "validate_LeafEntry sample_lax
       (DMap [(''type'', DStr ''u8''), (''name'', DStr ''x''), (''source'', DInt 5)])
     = Inr \<lparr>scalar_type = u8, leaf_size = None, source = NameSource ''x''\<rparr>
   \<and> validate_LeafEntry sample_lax (DMap [(''type'', DStr ''u8''), (''foo'', DInt 5)])
     = Inl [Error [] (value_error msg_neither)]"
  by code_simp

text \<open>
  Claim C4, amended. A leaf document with a key outside \<^verbatim>\<open>type\<close>, \<^verbatim>\<open>size\<close>,
  \<^verbatim>\<open>name\<close>, \<^verbatim>\<open>value\<close> and \<^verbatim>\<open>source\<close> always fails: with an unrecognized-field
  error for that key when exactly one of \<^verbatim>\<open>name\<close> and \<^verbatim>\<open>value\<close> is present, with
  the mutual-exclusion error alone when both are, and with the missing-field error alone
  when neither is.
\<close>

theorem unrecognized_key_rejected:
  assumes "dict_contains k kvs"
    and "k \<notin> {''type'', ''size'', ''name'', ''value'', ''source''}"
  shows "\<exists>es. validate_LeafEntry L (DMap kvs) = Inl es
    \<and> (dict_contains ''name'' kvs \<noteq> dict_contains ''value'' kvs \<longrightarrow>
          Error [Key k] extra_forbidden \<in> set es)
    \<and> (dict_contains ''name'' kvs \<and> dict_contains ''value'' kvs \<longrightarrow>
          es = [Error [] (value_error msg_both)])
    \<and> (\<not> dict_contains ''name'' kvs \<and> \<not> dict_contains ''value'' kvs \<longrightarrow>
          es = [Error [] (value_error msg_neither)])"
proof -
  consider (both) "dict_contains ''name'' kvs" "dict_contains ''value'' kvs"
    | (neither) "\<not> dict_contains ''name'' kvs" "\<not> dict_contains ''value'' kvs"
    | (one) "dict_contains ''name'' kvs \<noteq> dict_contains ''value'' kvs"
    by blast
  then show ?thesis
  proof cases
    case both
    then show ?thesis by (simp add: validate_LeafEntry_def flatten_source_both)
  next
    case neither
    then show ?thesis by (simp add: validate_LeafEntry_def flatten_source_neither)
  next
    case one
    then obtain v' where f: "flatten_source kvs = Inr v'"
      using flatten_source_name[of kvs] flatten_source_value[of kvs] by blast
    have "dict_contains k v'"
      using flatten_source_keeps_key[OF f assms(1)] assms(2) by simp
    then have "Error [Key k] extra_forbidden \<in> set (extra_errors [''type'', ''size'', ''source''] v')"
      using assms(2) by (intro extra_errors_mem) auto
    from LeafEntry_fields_extra[OF this, of L] obtain es
      where "LeafEntry_fields L v' = Inl es" "Error [Key k] extra_forbidden \<in> set es" by blast
    then show ?thesis using f one by (auto simp: validate_LeafEntry_def)
  qed
qed

theorem unrecognized_key_rejected_witness:
  "(\<exists>es. validate_LeafEntry sample_lax
            (DMap [(''type'', DStr ''u8''), (''name'', DStr ''x''), (''foo'', DInt 5)]) = Inl es
        \<and> Error [Key ''foo''] extra_forbidden \<in> set es)
   \<and> validate_LeafEntry sample_lax
        (DMap [(''type'', DStr ''u8''), (''name'', DStr ''x''), (''value'', DInt 1), (''foo'', DInt 5)])
       = Inl [Error [] (value_error msg_both)]
   \<and> validate_LeafEntry sample_lax (DMap [(''type'', DStr ''u8''), (''foo'', DInt 5)])
       = Inl [Error [] (value_error msg_neither)]"
proof -
  have w1: "\<exists>es. validate_LeafEntry sample_lax
            (DMap [(''type'', DStr ''u8''), (''name'', DStr ''x''), (''foo'', DInt 5)]) = Inl es
        \<and> Error [Key ''foo''] extra_forbidden \<in> set es"
    using unrecognized_key_rejected[of "''foo''"
        "[(''type'', DStr ''u8''), (''name'', DStr ''x''), (''foo'', DInt 5)]" sample_lax]
    by (simp add: dict_contains_def)
  have w2: "validate_LeafEntry sample_lax
        (DMap [(''type'', DStr ''u8''), (''name'', DStr ''x''), (''value'', DInt 1), (''foo'', DInt 5)])
       = Inl [Error [] (value_error msg_both)]"
    using unrecognized_key_rejected[of "''foo''"
        "[(''type'', DStr ''u8''), (''name'', DStr ''x''), (''value'', DInt 1), (''foo'', DInt 5)]" sample_lax]
    by (simp add: dict_contains_def)
  have w3: "validate_LeafEntry sample_lax (DMap [(''type'', DStr ''u8''), (''foo'', DInt 5)])
       = Inl [Error [] (value_error msg_neither)]"
    using unrecognized_key_rejected[of "''foo''"
        "[(''type'', DStr ''u8''), (''foo'', DInt 5)]" sample_lax]
    by (simp add: dict_contains_def)
  from w1 w2 w3 show ?thesis by blast
qed

section \<open>Size and CRC location\<close>

subsection \<open>Size\<close>

lemma SizeSource_wrong_length:
  "length xs \<noteq> 2 \<Longrightarrow>
   validate_SizeSource L (DSeq xs) = Inl [Error [] (value_error ''size must be length-2 list when array'')]"
proof (cases xs)
  case Nil
  then show ?thesis by (simp add: validate_SizeSource_def SizeSource_coerce_def fail_def)
next
  case (Cons a ys)
  assume "length xs \<noteq> 2"
  with Cons show ?thesis
    by (cases ys; cases "tl ys")
       (simp_all add: validate_SizeSource_def SizeSource_coerce_def fail_def)
qed

lemma SizeSource_non_int:
  assumes "length xs = 2" "\<exists>x \<in> set xs. \<not> isinstance_int x"
  shows "validate_SizeSource L (DSeq xs) = Inl [Error [] (value_error ''size list must contain integers'')]"
proof -
  from assms(1) obtain a b where xs: "xs = [a, b]"
    by (cases xs; cases "tl xs"; cases "tl (tl xs)") auto
  with assms(2) have "\<not> isinstance_int a \<or> \<not> isinstance_int b" by auto
  with xs show ?thesis
    by (auto simp: validate_SizeSource_def SizeSource_coerce_def fail_def)
qed

text \<open>
  Size resolution as the source checks it: a bare integer is a single dimension and a list
  of exactly two integers a pair; a list whose length is not 2, and a list of length 2
  with an element that is no instance of \<^verbatim>\<open>int\<close>, are rejected with the source's own
  messages.
\<close>

lemma size_resolution:
  "validate_SizeSource L (DInt n) = Inr (Single_dim n)
   \<and> validate_SizeSource L (DSeq [DInt a, DInt b]) = Inr (Two_dim a b)
   \<and> (length xs \<noteq> 2 \<longrightarrow>
        validate_SizeSource L (DSeq xs)
          = Inl [Error [] (value_error ''size must be length-2 list when array'')])
   \<and> (length xs = 2 \<and> (\<exists>x \<in> set xs. \<not> isinstance_int x) \<longrightarrow>
        validate_SizeSource L (DSeq xs)
          = Inl [Error [] (value_error ''size list must contain integers'')])"
proof (intro conjI impI)
  show "validate_SizeSource L (DInt n) = Inr (Single_dim n)"
    by (simp add: validate_SizeSource_def SizeSource_coerce_def)
  show "validate_SizeSource L (DSeq [DInt a, DInt b]) = Inr (Two_dim a b)"
    by (simp add: validate_SizeSource_def SizeSource_coerce_def at_loc_def)
next
  assume "length xs \<noteq> 2"
  then show "validate_SizeSource L (DSeq xs)
          = Inl [Error [] (value_error ''size must be length-2 list when array'')]"
    by (rule SizeSource_wrong_length)
next
  assume "length xs = 2 \<and> (\<exists>x \<in> set xs. \<not> isinstance_int x)"
  then show "validate_SizeSource L (DSeq xs)
          = Inl [Error [] (value_error ''size list must contain integers'')]"
    using SizeSource_non_int by blast
qed

lemma size_resolution_samples:
  "validate_SizeSource sample_lax (DInt 4) = Inr (Single_dim 4)
   \<and> validate_SizeSource sample_lax (DSeq [DInt 2, DInt 3]) = Inr (Two_dim 2 3)
   \<and> validate_SizeSource sample_lax (DSeq [])
       = Inl [Error [] (value_error ''size must be length-2 list when array'')]
   \<and> validate_SizeSource sample_lax (DSeq [DInt 1])
       = Inl [Error [] (value_error ''size must be length-2 list when array'')]
   \<and> validate_SizeSource sample_lax (DSeq [DInt 1, DInt 2, DInt 3])
       = Inl [Error [] (value_error ''size must be length-2 list when array'')]
   \<and> validate_SizeSource sample_lax (DSeq [DInt 1, DStr ''2''])
       = Inl [Error [] (value_error ''size list must contain integers'')]"
  using size_resolution[of sample_lax 4 2 3 "[]"]
    size_resolution[of sample_lax 4 2 3 "[DInt 1]"]
    size_resolution[of sample_lax 4 2 3 "[DInt 1, DInt 2, DInt 3]"]
    size_resolution[of sample_lax 4 2 3 "[DInt 1, DStr ''2'']"]
  by simp

text \<open>
  Claim C6. Size resolution is to reject every sequence with a non-integer element, and
  \<^verbatim>\<open>_coerce\<close> raises "size list must contain integers" for one. Its test is
  \<^verbatim>\<open>isinstance(a, int)\<close>, which holds of a boolean: the list of \<^verbatim>\<open>True\<close> and 2 passes
  it, and the tuple arm reads the boolean as 1.
\<close>

theorem size_bool_pair_accepted:
  "validate_SizeSource sample_lax (DSeq [DBool True, DInt 2]) = Inr (Two_dim 1 2)"
  by code_simp

subsection \<open>CRC location\<close>

lemma validate_CrcLocation_reject:
  assumes "(\<exists>m. d = DMap m) \<or> (\<exists>xs. d = DSeq xs) \<or> d = DNull"
  shows "validate_CrcLocation L d = Inl [Error [Arm ''str''] string_type, Error [Arm ''int''] int_type]"
  using assms
  by (auto simp: validate_CrcLocation_def fail_def at_loc_def errs_of_def prefix_loc_def)

lemma validate_Header_crc_location:
  assumes "dict_get kvs ''crc_location'' = Some d" "validate_CrcLocation L d = Inl es"
  shows "\<exists>es'. validate_Header L (DMap kvs) = Inl es'
     \<and> set (map (prefix_loc (Key ''crc_location'')) es) \<subseteq> set es'"
  using assms
  by (auto simp: validate_Header_def Let_def required_def at_loc_def errs_of_def
      split: sum.splits)

text \<open>
  Claim C7 states that a boolean \<^verbatim>\<open>crc_location\<close> is rejected. No arm of
  \<^verbatim>\<open>Union[str, int]\<close> matches a boolean exactly, and the \<^verbatim>\<open>int\<close> arm accepts it in
  lax mode as 0 or 1.
\<close>

theorem crc_location_bool_counterexample:
  "validate_Header sample_lax
       (DMap [(''start_address'', DInt 0), (''length'', DInt 16), (''crc_location'', DBool True)])
     = Inr \<lparr>start_address = 0, hdr_length = 16, crc_location = Address 1, padding = 255\<rparr>"
  by code_simp

text \<open>
  Claim C7, amended. A string \<^verbatim>\<open>crc_location\<close> is resolved as the keyword variant and
  an integer as the address variant; a mapping, a sequence and null are rejected with the
  errors of both arms of the union, and the header that carries one fails; a boolean is
  accepted as the address 0 or 1.
\<close>

theorem crc_location_resolution:
  "validate_CrcLocation L (DStr s) = Inr (Keyword s)
   \<and> validate_CrcLocation L (DInt i) = Inr (Address i)
   \<and> validate_CrcLocation L (DBool b) = Inr (Address (if b then 1 else 0))
   \<and> ((\<exists>m. d = DMap m) \<or> (\<exists>xs. d = DSeq xs) \<or> d = DNull \<longrightarrow>
        validate_CrcLocation L d
          = Inl [Error [Arm ''str''] string_type, Error [Arm ''int''] int_type]
        \<and> (dict_get kvs ''crc_location'' = Some d \<longrightarrow>
             (\<exists>es. validate_Header L (DMap kvs) = Inl es
                \<and> Error [Key ''crc_location'', Arm ''str''] string_type \<in> set es
                \<and> Error [Key ''crc_location'', Arm ''int''] int_type \<in> set es)))"
proof (intro conjI impI)
  show "validate_CrcLocation L (DStr s) = Inr (Keyword s)"
    by (simp add: validate_CrcLocation_def)
  show "validate_CrcLocation L (DInt i) = Inr (Address i)"
    by (simp add: validate_CrcLocation_def)
  show "validate_CrcLocation L (DBool b) = Inr (Address (if b then 1 else 0))"
    by (simp add: validate_CrcLocation_def)
next
  assume "(\<exists>m. d = DMap m) \<or> (\<exists>xs. d = DSeq xs) \<or> d = DNull"
  then show "validate_CrcLocation L d
          = Inl [Error [Arm ''str''] string_type, Error [Arm ''int''] int_type]"
    by (rule validate_CrcLocation_reject)
next
  assume a: "(\<exists>m. d = DMap m) \<or> (\<exists>xs. d = DSeq xs) \<or> d = DNull"
    and g: "dict_get kvs ''crc_location'' = Some d"
  from validate_Header_crc_location[OF g validate_CrcLocation_reject[OF a]]
  show "\<exists>es. validate_Header L (DMap kvs) = Inl es
                \<and> Error [Key ''crc_location'', Arm ''str''] string_type \<in> set es
                \<and> Error [Key ''crc_location'', Arm ''int''] int_type \<in> set es"
    by (auto simp: prefix_loc_def)
qed

theorem crc_location_resolution_witness:
  "validate_CrcLocation sample_lax (DStr ''end'') = Inr (Keyword ''end'')
   \<and> validate_CrcLocation sample_lax (DInt 4096) = Inr (Address 4096)
   \<and> validate_CrcLocation sample_lax (DBool False) = Inr (Address 0)
   \<and> validate_CrcLocation sample_lax (DSeq [DInt 1])
       = Inl [Error [Arm ''str''] string_type, Error [Arm ''int''] int_type]
   \<and> (\<exists>es. validate_Header sample_lax
          (DMap [(''start_address'', DInt 0), (''length'', DInt 16), (''crc_location'', DSeq [DInt 1])])
          = Inl es
        \<and> Error [Key ''crc_location'', Arm ''str''] string_type \<in> set es
        \<and> Error [Key ''crc_location'', Arm ''int''] int_type \<in> set es)"
  using crc_location_resolution[of sample_lax "''end''" 4096 False "DSeq [DInt 1]"
      "[(''start_address'', DInt 0), (''length'', DInt 16), (''crc_location'', DSeq [DInt 1])]"]
  by (simp add: dict_get_def)

text \<open>
  Claim C8. The source describes the address as a \<^verbatim>\<open>u32\<close> and declares it as
  \<^verbatim>\<open>int\<close>, which has no bound: a header whose \<^verbatim>\<open>crc_location\<close> is \<open>2 ^ 32\<close>
  validates, with that number as its address.
\<close>

theorem crc_address_out_of_range:
  "validate_Header sample_lax
       (DMap [(''start_address'', DInt 0), (''length'', DInt 16),
              (''crc_location'', DInt 4294967296)])
     = Inr \<lparr>start_address = 0, hdr_length = 16, crc_location = Address 4294967296,
            padding = 255\<rparr>
   \<and> \<not> (4294967296 :: int) < 2 ^ 32"
  by code_simp

section \<open>Literal values\<close>

lemma validate_DataValue_Inr_iff:
  "validate_DataValue d = Inr x \<longleftrightarrow>
     (\<exists>i. d = DInt i \<and> x = VInt i) \<or> (\<exists>f. d = DFloat f \<and> x = VFloat f)
     \<or> (\<exists>s. d = DStr s \<and> x = VStr s) \<or> (\<exists>b. d = DBool b \<and> x = VInt (if b then 1 else 0))"
  by (cases d) auto

lemma validate_ValueSource_Single_iff:
  "validate_ValueSource d = Inr (Single x) \<longleftrightarrow> (\<forall>ds. d \<noteq> DSeq ds) \<and> validate_DataValue d = Inr x"
  by (cases d) (auto simp: validate_ValueSource_def split: sum.splits)

lemma validate_ValueSource_Array_iff:
  "validate_ValueSource d = Inr (Array vs) \<longleftrightarrow>
     (\<exists>ds. d = DSeq ds \<and> map validate_DataValue ds = map Inr vs)"
  by (cases d)
     (auto simp: validate_ValueSource_def validate_ValueArray_def collect_list_map_Inr
       split: sum.splits dest: collect_list_InrD)

text \<open>
  Claim C9 states that an empty sequence is no valid literal. The array arm is
  \<^verbatim>\<open>List[DataValue]\<close>, which has no length constraint: a leaf whose \<^verbatim>\<open>value\<close> is the
  empty list validates, with the empty array as its literal.
\<close>

theorem empty_literal_counterexample:
  "validate_LeafEntry sample_lax (DMap [(''type'', DStr ''u8''), (''value'', DSeq [])])
     = Inr \<lparr>scalar_type = u8, leaf_size = None, source = ValueLiteral (Array [])\<rparr>"
  by code_simp

text \<open>
  Claim C9, amended. The literal of a leaf that takes its source from \<^verbatim>\<open>value\<close> is
  either a single scalar or an ordered sequence of scalars, which may be empty: a single
  scalar for a document that is no sequence, and for a sequence the array of its
  elements, one scalar each, in order. A scalar is an integer, a float or a string, each
  kept as it is; a boolean is read as the integer 0 or 1.
\<close>

theorem literal_shape:
  "(\<not> dict_contains ''name'' kvs \<and> validate_LeafEntry L (DMap kvs) = Inr l \<longrightarrow>
      (\<exists>d v. dict_get kvs ''value'' = Some d \<and> validate_ValueSource d = Inr v
         \<and> source l = ValueLiteral v))
   \<and> (validate_ValueSource d = Inr (Single x) \<longleftrightarrow>
        (\<forall>ds. d \<noteq> DSeq ds) \<and> validate_DataValue d = Inr x)
   \<and> (validate_ValueSource d = Inr (Array vs) \<longleftrightarrow>
        (\<exists>ds. d = DSeq ds \<and> map validate_DataValue ds = map Inr vs))
   \<and> validate_ValueSource (DSeq []) = Inr (Array [])
   \<and> (validate_DataValue d = Inr x \<longleftrightarrow>
        (\<exists>i. d = DInt i \<and> x = VInt i) \<or> (\<exists>f. d = DFloat f \<and> x = VFloat f)
        \<or> (\<exists>s. d = DStr s \<and> x = VStr s)
        \<or> (\<exists>b. d = DBool b \<and> x = VInt (if b then 1 else 0)))"
proof (intro conjI impI)
  assume a: "\<not> dict_contains ''name'' kvs \<and> validate_LeafEntry L (DMap kvs) = Inr l"
  then have "dict_contains ''value'' kvs"
    by (auto simp: validate_LeafEntry_def flatten_source_def Let_def fail_def
        split: sum.splits if_splits)
  with a LeafEntry_ok_value
  show "\<exists>d v. dict_get kvs ''value'' = Some d \<and> validate_ValueSource d = Inr v
         \<and> source l = ValueLiteral v" by blast
next
  show "validate_ValueSource d = Inr (Single x) \<longleftrightarrow>
        (\<forall>ds. d \<noteq> DSeq ds) \<and> validate_DataValue d = Inr x"
    by (rule validate_ValueSource_Single_iff)
  show "validate_ValueSource d = Inr (Array vs) \<longleftrightarrow>
        (\<exists>ds. d = DSeq ds \<and> map validate_DataValue ds = map Inr vs)"
    by (rule validate_ValueSource_Array_iff)
  show "validate_ValueSource (DSeq []) = Inr (Array [])"
    by (simp add: validate_ValueSource_Array_iff)
  show "validate_DataValue d = Inr x \<longleftrightarrow>
        (\<exists>i. d = DInt i \<and> x = VInt i) \<or> (\<exists>f. d = DFloat f \<and> x = VFloat f)
        \<or> (\<exists>s. d = DStr s \<and> x = VStr s)
        \<or> (\<exists>b. d = DBool b \<and> x = VInt (if b then 1 else 0))"
    by (rule validate_DataValue_Inr_iff)
qed

lemma sample_leaf_array_ok:
  "validate_LeafEntry sample_lax
       (DMap [(''type'', DStr ''u8''), (''size'', DInt 2), (''value'', DSeq [DInt 1, DStr ''a''])])
     = Inr \<lparr>scalar_type = u8, leaf_size = Some (Single_dim 2),
            source = ValueLiteral (Array [VInt 1, VStr ''a''])\<rparr>"
  by code_simp

theorem literal_shape_witness:
  "(\<exists>d v. dict_get [(''type'', DStr ''u8''), (''size'', DInt 2), (''value'', DSeq [DInt 1, DStr ''a''])]
             ''value'' = Some d
        \<and> validate_ValueSource d = Inr v
        \<and> ValueLiteral (Array [VInt 1, VStr ''a'']) = ValueLiteral v)
   \<and> validate_ValueSource (DSeq [DInt 1, DStr ''a'']) = Inr (Array [VInt 1, VStr ''a''])
   \<and> validate_ValueSource (DFloat (Finite 1)) = Inr (Single (VFloat (Finite 1)))
   \<and> validate_ValueSource (DSeq []) = Inr (Array [])"
proof -
  let ?kvs = "[(''type'', DStr ''u8''), (''size'', DInt 2), (''value'', DSeq [DInt 1, DStr ''a''])]"
  let ?l = "\<lparr>scalar_type = u8, leaf_size = Some (Single_dim 2),
            source = ValueLiteral (Array [VInt 1, VStr ''a''])\<rparr>"
  have w1: "\<exists>d v. dict_get ?kvs ''value'' = Some d \<and> validate_ValueSource d = Inr v
        \<and> ValueLiteral (Array [VInt 1, VStr ''a'']) = ValueLiteral v"
    using literal_shape[of ?kvs sample_lax ?l DNull "VInt 0" "[]"] sample_leaf_array_ok
    by (auto simp: dict_contains_def)
  have w2: "validate_ValueSource (DSeq [DInt 1, DStr ''a'']) = Inr (Array [VInt 1, VStr ''a''])"
    using literal_shape[of ?kvs sample_lax ?l "DSeq [DInt 1, DStr ''a'']" "VInt 1" "[VInt 1, VStr ''a'']"]
    by simp
  have w3: "validate_ValueSource (DFloat (Finite 1)) = Inr (Single (VFloat (Finite 1)))"
    using literal_shape[of ?kvs sample_lax ?l "DFloat (Finite 1)" "VFloat (Finite 1)" "[]"]
    by simp
  have w4: "validate_ValueSource (DSeq []) = Inr (Array [])"
    using literal_shape[of ?kvs sample_lax ?l DNull "VInt 0" "[]"] by simp
  from w1 w2 w3 w4 show ?thesis by blast
qed

section \<open>The top-level document\<close>

subsection \<open>The top-level flattener\<close>

lemma dict_set_fresh: "\<not> dict_contains k al \<Longrightarrow> dict_set k x al = al @ [(k, x)]"
  by (induction al) (auto simp: dict_set_def dict_contains_def)

lemma flatten_blocks_fold:
  assumes "distinct (map fst kvs)" "\<forall>k \<in> set (map fst kvs). \<not> dict_contains k acc"
  shows "fold (\<lambda>(key, val) blocks. if key = ''settings'' then blocks else dict_set key val blocks) kvs acc
       = acc @ filter (\<lambda>(k, v). k \<noteq> ''settings'') kvs"
  using assms
proof (induction kvs arbitrary: acc)
  case Nil
  then show ?case by simp
next
  case (Cons p kvs)
  obtain k v where p: "p = (k, v)" by (cases p)
  show ?case
  proof (cases "k = ''settings''")
    case True
    then show ?thesis using Cons p by simp
  next
    case False
    have fresh: "\<not> dict_contains k acc" using Cons.prems(2) p by simp
    have "\<forall>k' \<in> set (map fst kvs). \<not> dict_contains k' (acc @ [(k, v)])"
      using Cons.prems p by (auto simp: dict_contains_def)
    then have "fold (\<lambda>(key, val) blocks. if key = ''settings'' then blocks else dict_set key val blocks)
          kvs (acc @ [(k, v)])
        = (acc @ [(k, v)]) @ filter (\<lambda>(k, v). k \<noteq> ''settings'') kvs"
      using Cons.IH Cons.prems(1) by simp
    then show ?thesis using False p dict_set_fresh[OF fresh] by simp
  qed
qed

lemma flatten_blocks_loop_distinct:
  "distinct (map fst kvs) \<Longrightarrow>
   flatten_blocks_loop kvs = filter (\<lambda>(k, v). k \<noteq> ''settings'') kvs"
  using flatten_blocks_fold[of kvs "[]"]
  by (simp add: flatten_blocks_loop_def dict_contains_def)

lemma validate_dict_all_ok:
  assumes "\<forall>(k, v) \<in> set kvs. \<exists>b. f v = Inr b"
  shows "\<exists>bs. validate_dict f (DMap kvs) = Inr bs
     \<and> list_all2 (\<lambda>(k, v) (k', b). k' = k \<and> f v = Inr b) kvs bs"
  using assms
proof (induction kvs)
  case Nil
  then show ?case by (simp add: validate_dict_def)
next
  case (Cons p kvs)
  obtain k v where p: "p = (k, v)" by (cases p)
  from Cons.prems p obtain b where b: "f v = Inr b" by auto
  from Cons obtain bs where bs: "validate_dict f (DMap kvs) = Inr bs"
    "list_all2 (\<lambda>(k, v) (k', b). k' = k \<and> f v = Inr b) kvs bs" by auto
  have "validate_dict f (DMap (p # kvs)) = Inr ((k, b) # bs)"
    using p b bs(1) by (simp add: validate_dict_def at_loc_def)
  then show ?case using p b bs(2) by auto
qed

lemma list_all2_keys:
  "list_all2 (\<lambda>(k, v) (k', b). k' = k \<and> P v b) kvs bs \<Longrightarrow> map fst bs = map fst kvs"
  by (induction kvs bs rule: list_all2_induct) auto

lemma map_fst_filter_keys:
  "map fst (filter (\<lambda>(k, v). P k) kvs) = filter P (map fst kvs)"
  by (induction kvs) auto

text \<open>
  Claim C2. A mapping document whose \<^verbatim>\<open>settings\<close> validate and whose other top-level
  values all validate as blocks is accepted by \<^verbatim>\<open>Config\<close> and by \<^verbatim>\<open>load_layout\<close>.
  Every top-level key but \<^verbatim>\<open>settings\<close> becomes a block, validated from its own value,
  and the keys of \<open>blocks\<close> are the top-level keys of the document without
  \<^verbatim>\<open>settings\<close>, in document order.
\<close>

theorem blocks_in_document_order:
  assumes "distinct (map fst kvs)"
    and "dict_get kvs ''settings'' = Some s"
    and "validate_Settings L s = Inr st"
    and "\<forall>(k, v) \<in> set kvs. k \<noteq> ''settings'' \<longrightarrow> (\<exists>b. validate_Block L v = Inr b)"
  shows "\<exists>bs. validate_Config L (DMap kvs) = Inr \<lparr>settings = st, blocks = bs\<rparr>
    \<and> load_layout L path (DMap kvs) = Inr \<lparr>settings = st, blocks = bs\<rparr>
    \<and> map fst bs = filter (\<lambda>k. k \<noteq> ''settings'') (map fst kvs)
    \<and> list_all2 (\<lambda>(k, v) (k', b). k' = k \<and> validate_Block L v = Inr b)
         (filter (\<lambda>(k, v). k \<noteq> ''settings'') kvs) bs"
proof -
  let ?bl = "filter (\<lambda>(k, v). k \<noteq> ''settings'') kvs"
  have c: "dict_contains ''settings'' kvs" using assms(2) by (simp add: dict_contains_get)
  have f: "flatten_blocks kvs = Inr [(''settings'', s), (''blocks'', DMap ?bl)]"
    using c dict_item_get[OF assms(2)] flatten_blocks_loop_distinct[OF assms(1)]
    by (simp add: flatten_blocks_def)
  have "\<forall>(k, v) \<in> set ?bl. \<exists>b. validate_Block L v = Inr b" using assms(4) by auto
  from validate_dict_all_ok[OF this] obtain bs
    where bs: "validate_dict (validate_Block L) (DMap ?bl) = Inr bs"
      and all2: "list_all2 (\<lambda>(k, v) (k', b). k' = k \<and> validate_Block L v = Inr b) ?bl bs"
    by blast
  have cf: "Config_fields L [(''settings'', s), (''blocks'', DMap ?bl)] = Inr \<lparr>settings = st, blocks = bs\<rparr>"
    using assms(3) bs by (simp add: Config_fields_def required_def dict_get_def at_loc_def)
  have v: "validate_Config L (DMap kvs) = Inr \<lparr>settings = st, blocks = bs\<rparr>"
    using f cf by (simp add: validate_Config_def)
  have k: "map fst bs = filter (\<lambda>k. k \<noteq> ''settings'') (map fst kvs)"
    using list_all2_keys[OF all2] by (simp add: map_fst_filter_keys)
  from v k all2 show ?thesis by (auto simp: load_layout_def)
qed

lemma sample_settings_ok:
  "validate_Settings sample_lax sample_settings
     = Inr \<lparr>endianness = little,
            crc = \<lparr>polynomial = 7, start = 0, xor_out = 0, ref_in = False, ref_out = False\<rparr>\<rparr>"
  by code_simp

lemma sample_block_ok:
  "validate_Block sample_lax sample_block
     = Inr \<lparr>header = \<lparr>start_address = 0, hdr_length = 16, crc_location = Keyword ''end'',
                       padding = 255\<rparr>,
            data = Group [(''version'',
              Leaf \<lparr>scalar_type = u32, leaf_size = None, source = ValueLiteral (Single (VInt 1))\<rparr>)]\<rparr>"
  by code_simp

theorem blocks_in_document_order_witness:
  "\<exists>bs. validate_Config sample_lax
           (DMap [(''fw'', sample_block), (''settings'', sample_settings), (''cal'', sample_block)])
         = Inr \<lparr>settings = \<lparr>endianness = little,
                   crc = \<lparr>polynomial = 7, start = 0, xor_out = 0, ref_in = False, ref_out = False\<rparr>\<rparr>,
                blocks = bs\<rparr>
     \<and> map fst bs = [''fw'', ''cal'']"
proof -
  let ?kvs = "[(''fw'', sample_block), (''settings'', sample_settings), (''cal'', sample_block)]"
  have d: "distinct (map fst ?kvs)" by simp
  have g: "dict_get ?kvs ''settings'' = Some sample_settings" by (simp add: dict_get_def)
  have b: "\<forall>(k, v) \<in> set ?kvs. k \<noteq> ''settings'' \<longrightarrow> (\<exists>b. validate_Block sample_lax v = Inr b)"
    using sample_block_ok by simp
  from blocks_in_document_order[OF d g sample_settings_ok b, of "''layout.json''"]
  show ?thesis by auto
qed

subsection \<open>Serialization and validation\<close>

lemma validate_Header_dump_Block: "\<exists>es. validate_Header L (dump_Block b) = Inl es"
  by (simp add: validate_Header_def dump_Block_def required_def dict_get_def Let_def
      split: sum.splits)

lemma dict_get_dumped_blocks:
  assumes "dict_get (map (\<lambda>(k, b). (k, dump_Block b)) bs) k = Some d"
  shows "\<exists>b. d = dump_Block b"
proof -
  from assms have "(k, d) \<in> set (map (\<lambda>(k, b). (k, dump_Block b)) bs)"
    unfolding dict_get_def by (rule map_of_SomeD)
  then show ?thesis by auto
qed

lemma validate_Block_dumped_blocks:
  "\<exists>es. validate_Block L (DMap (map (\<lambda>(k, b). (k, dump_Block b)) bs)) = Inl es"
proof (cases "dict_get (map (\<lambda>(k, b). (k, dump_Block b)) bs) ''header''")
  case None
  then show ?thesis
    by (simp add: validate_Block_def required_def Let_def split: sum.splits)
next
  case (Some d)
  from dict_get_dumped_blocks[OF Some] obtain b where "d = dump_Block b" by blast
  with validate_Header_dump_Block[of L b] obtain es where "validate_Header L d = Inl es" by blast
  with Some show ?thesis
    by (simp add: validate_Block_def required_def at_loc_def Let_def split: sum.splits)
qed

lemma flatten_blocks_dump:
  "flatten_blocks [(''settings'', S), (''blocks'', B)]
     = Inr [(''settings'', S), (''blocks'', DMap [(''blocks'', B)])]"
  by (simp add: flatten_blocks_def flatten_blocks_loop_def dict_contains_def dict_item_def
      dict_get_def dict_set_def)

lemma validate_Config_dump: "\<exists>es. validate_Config L (dump_Config c) = Inl es"
proof -
  let ?B = "DMap (map (\<lambda>(k, b). (k, dump_Block b)) (blocks c))"
  from validate_Block_dumped_blocks[of L "blocks c"] obtain es
    where "validate_Block L ?B = Inl es" by blast
  then have "\<exists>es'. validate_dict (validate_Block L) (DMap [(''blocks'', ?B)]) = Inl es'"
    by (simp add: validate_dict_def at_loc_def)
  then have "\<exists>es'. Config_fields L [(''settings'', dump_Settings (settings c)),
        (''blocks'', DMap [(''blocks'', ?B)])] = Inl es'"
    by (auto simp: Config_fields_def required_def dict_get_def at_loc_def Let_def
        split: sum.splits)
  then show ?thesis
    by (simp add: validate_Config_def dump_Config_def flatten_blocks_dump)
qed

text \<open>
  Claim C5 states that the serialization of a validated configuration validates again,
  to an equal value. The serialization holds the blocks under the top-level key
  \<^verbatim>\<open>blocks\<close>, and \<^verbatim>\<open>_flatten_blocks\<close> takes every top-level key but \<^verbatim>\<open>settings\<close>
  for a block: the sample document validates, and its serialization does not.
\<close>

theorem roundtrip_counterexample:
  "validate_Config sample_lax (DMap [(''settings'', sample_settings)])
     = Inr \<lparr>settings = \<lparr>endianness = little,
               crc = \<lparr>polynomial = 7, start = 0, xor_out = 0, ref_in = False, ref_out = False\<rparr>\<rparr>,
            blocks = []\<rparr>
   \<and> validate_Config sample_lax
       (dump_Config \<lparr>settings = \<lparr>endianness = little,
               crc = \<lparr>polynomial = 7, start = 0, xor_out = 0, ref_in = False, ref_out = False\<rparr>\<rparr>,
            blocks = []\<rparr>)
     = Inl [Error [Key ''blocks'', Key ''blocks'', Key ''header''] missing,
            Error [Key ''blocks'', Key ''blocks'', Key ''data''] missing]"
  by code_simp

text \<open>
  Claim C5, amended. The serialization of a validated configuration never validates
  again: \<^verbatim>\<open>_flatten_blocks\<close> reads its top-level key \<^verbatim>\<open>blocks\<close> as a block of that
  name, whose value, the mapping of the serialized blocks, is no valid block.
\<close>

theorem serialization_not_revalidated:
  "validate_Config L d = Inr c \<longrightarrow>
     (\<exists>es. validate_Config L (dump_Config c) = Inl es)
     \<and> validate_Config L (dump_Config c) \<noteq> Inr c
     \<and> (\<exists>S B. dump_Config c = DMap [(''settings'', S), (''blocks'', B)]
          \<and> flatten_blocks [(''settings'', S), (''blocks'', B)]
            = Inr [(''settings'', S), (''blocks'', DMap [(''blocks'', B)])])"
proof
  assume "validate_Config L d = Inr c"
  from validate_Config_dump[of L c] obtain es where es: "validate_Config L (dump_Config c) = Inl es"
    by blast
  have "\<exists>S B. dump_Config c = DMap [(''settings'', S), (''blocks'', B)]
          \<and> flatten_blocks [(''settings'', S), (''blocks'', B)]
            = Inr [(''settings'', S), (''blocks'', DMap [(''blocks'', B)])]"
    by (simp add: dump_Config_def flatten_blocks_dump)
  with es show "(\<exists>es. validate_Config L (dump_Config c) = Inl es)
     \<and> validate_Config L (dump_Config c) \<noteq> Inr c
     \<and> (\<exists>S B. dump_Config c = DMap [(''settings'', S), (''blocks'', B)]
          \<and> flatten_blocks [(''settings'', S), (''blocks'', B)]
            = Inr [(''settings'', S), (''blocks'', DMap [(''blocks'', B)])])"
    by simp
qed

lemma sample_config_ok:
  "validate_Config sample_lax sample_config
     = Inr \<lparr>settings = \<lparr>endianness = little,
               crc = \<lparr>polynomial = 7, start = 0, xor_out = 0, ref_in = False, ref_out = False\<rparr>\<rparr>,
            blocks = [(''fw'',
              \<lparr>header = \<lparr>start_address = 0, hdr_length = 16, crc_location = Keyword ''end'',
                          padding = 255\<rparr>,
               data = Group [(''version'',
                 Leaf \<lparr>scalar_type = u32, leaf_size = None,
                       source = ValueLiteral (Single (VInt 1))\<rparr>)]\<rparr>)]\<rparr>"
  by code_simp

theorem serialization_not_revalidated_witness:
  "\<exists>es. validate_Config sample_lax
      (dump_Config \<lparr>settings = \<lparr>endianness = little,
               crc = \<lparr>polynomial = 7, start = 0, xor_out = 0, ref_in = False, ref_out = False\<rparr>\<rparr>,
            blocks = [(''fw'',
              \<lparr>header = \<lparr>start_address = 0, hdr_length = 16, crc_location = Keyword ''end'',
                          padding = 255\<rparr>,
               data = Group [(''version'',
                 Leaf \<lparr>scalar_type = u32, leaf_size = None,
                       source = ValueLiteral (Single (VInt 1))\<rparr>)]\<rparr>)]\<rparr>) = Inl es"
  using serialization_not_revalidated[of sample_lax sample_config] sample_config_ok
  by simp

end
